theory Spec2Isabelle
  imports Complex_Main
begin

section \<open>Dead Internet Detector: scoring engine and analyzers\<close>

text \<open>
  A shallow embedding of \<^verbatim>\<open>src/analysis/TrustScorer.js\<close>,
  \<^verbatim>\<open>src/analysis/AccountAnalyzer.js\<close> and \<^verbatim>\<open>src/analysis/TextAnalyzer.js\<close>.
  An object is the list of its \<^verbatim>\<open>Object.entries\<close>, in order. A string is the list of
  its code units, which are taken below 256 (Latin-1). Numbers are real numbers: the
  arithmetic is exact where the source rounds to doubles, so a score may differ from the
  source's in its last digits, and only there.
\<close>

subsection \<open>Helpers shared by the modules\<close>

text \<open>Decimal rendering of a count inside a template string.\<close>

definition digitChar :: "nat \<Rightarrow> char" where
  "digitChar d =
     (if d = 0 then CHR ''0'' else if d = 1 then CHR ''1'' else if d = 2 then CHR ''2''
      else if d = 3 then CHR ''3'' else if d = 4 then CHR ''4'' else if d = 5 then CHR ''5''
      else if d = 6 then CHR ''6'' else if d = 7 then CHR ''7'' else if d = 8 then CHR ''8''
      else CHR ''9'')"

fun showNat :: "nat \<Rightarrow> string" where
  "showNat n = (if n < 10 then [digitChar n] else showNat (n div 10) @ [digitChar (n mod 10)])"

text \<open>
  \<^verbatim>\<open>obj[key] = value\<close> on an object held as its entry list: an existing key keeps
  its place, a new key goes to the end.
\<close>

fun assign :: "('k \<times> 'v) list \<Rightarrow> 'k \<Rightarrow> 'v \<Rightarrow> ('k \<times> 'v) list" where
  "assign [] k v = [(k, v)]"
| "assign ((k', v') # kvs) k v =
     (if k' = k then (k, v) # kvs else (k', v') # assign kvs k v)"

text \<open>\<^verbatim>\<open>counts[key] = (counts[key] || 0) + 1\<close>.\<close>

fun lookupCount :: "('k \<times> nat) list \<Rightarrow> 'k \<Rightarrow> nat" where
  "lookupCount [] k = 0"
| "lookupCount ((k', c) # kvs) k = (if k' = k then c else lookupCount kvs k)"

definition bumpCount :: "('k \<times> nat) list \<Rightarrow> 'k \<Rightarrow> ('k \<times> nat) list" where
  "bumpCount counts k = assign counts k (lookupCount counts k + 1)"

fun countAll :: "('k \<times> nat) list \<Rightarrow> 'k list \<Rightarrow> ('k \<times> nat) list" where
  "countAll counts [] = counts"
| "countAll counts (k # ks) = countAll (bumpCount counts k) ks"

text \<open>The exceptions the modelled code can raise.\<close>

datatype jsError = RangeError | TypeError

subsection \<open>Property reads\<close>

text \<open>
  The scorer looks its tables up with \<^verbatim>\<open>table[key]\<close>, which also finds what the table
  inherits from \<^verbatim>\<open>Object.prototype\<close>. These are the names every plain object inherits;
  under each the value is a function, under \<^verbatim>\<open>__proto__\<close> the prototype object itself.
\<close>

definition objectPrototype :: "string list" where
  "objectPrototype =
     [''constructor'', ''__defineGetter__'', ''__defineSetter__'', ''hasOwnProperty'',
      ''__lookupGetter__'', ''__lookupSetter__'', ''isPrototypeOf'', ''propertyIsEnumerable'',
      ''toString'', ''valueOf'', ''__proto__'', ''toLocaleString'']"

text \<open>
  What a read yields, as far as \<^verbatim>\<open>weight = table[key] || 0\<close> and the sums can tell:
  nothing or a falsy value (the weight is 0), a number, or a function, an object or a
  string that is no numeral. The last is truthy; multiplied with a number it gives NaN,
  and added to a sum it turns the sum into a string that is not a number.
\<close>

datatype weightValue = Absent | NumberW real | Exotic

text \<open>A read returns a value, or runs an accessor that throws.\<close>

datatype propertyRead = Throws | Value weightValue

text \<open>\<^verbatim>\<open>table[key]\<close> on one of the scorer's own tables, a plain object of numbers.\<close>

definition plainRead :: "(string \<times> real) list \<Rightarrow> string \<Rightarrow> weightValue" where
  "plainRead table k =
     (case map_of table k of
        Some w \<Rightarrow> NumberW w
      | None \<Rightarrow> if k \<in> set objectPrototype then Exotic else Absent)"

text \<open>
  The host: what \<^verbatim>\<open>o[key]\<close> yields when \<open>o\<close> is the object a plain object inherits
  under the given name (for \<^verbatim>\<open>constructor\<close> the function \<^verbatim>\<open>Object\<close>). The members of
  these built-in objects belong to the JavaScript engine, not to the repository, and are a
  parameter of the model.
\<close>

type_synonym host = "string \<Rightarrow> string \<Rightarrow> propertyRead"

subsection \<open>TrustScorer\<close>

text \<open>
  A signal value as \<^verbatim>\<open>_scoreCatgory\<close> reads it: \<^verbatim>\<open>null\<close>, \<^verbatim>\<open>undefined\<close>, a
  bare number, or an object with a \<^verbatim>\<open>score\<close> (\<open>None\<close> when null or undefined) and a
  \<^verbatim>\<open>detail\<close>.
\<close>

datatype signalValue =
    SigNull
  | SigUndefined
  | SigNumber real
  | SigObject "real option" "string option"

type_synonym signalGroup = "(string \<times> signalValue) list"
type_synonym signalBundle = "(string \<times> signalGroup) list"

datatype severity = High | Medium

record issue =
  issue_category :: string
  issue_signal :: string
  issue_score :: real
  issue_detail :: "string option"
  issue_severity :: severity

record categoryResult =
  cat_score :: real
  cat_signalCount :: nat
  cat_issues :: "issue list"

datatype trustLevel =
  HIGH_TRUST | MODERATE_TRUST | LOW_TRUST | VERY_LOW_TRUST | INSUFFICIENT_DATA

text \<open>
  \<^verbatim>\<open>TrustResult\<close>, without its \<^verbatim>\<open>timestamp\<close> (the clock at construction);
  \<open>res_details\<close> lists the own entries of \<^verbatim>\<open>details\<close>.
\<close>

record trustResult =
  res_score :: "real option"
  res_level :: trustLevel
  res_confidence :: real
  res_message :: string
  res_details :: "(string \<times> categoryResult) list"
  res_issues :: "issue list"
  res_signalCount :: nat

record config =
  minSignalsRequired :: real
  confidenceDecay :: real

definition defaultConfig :: config where
  "defaultConfig = \<lparr>minSignalsRequired = 3, confidenceDecay = 0.85\<rparr>"

definition textWeights :: "(string \<times> real) list" where
  "textWeights =
     [(''aiDetection'', 0.25), (''repetitionPattern'', 0.20),
      (''sentimentConsistency'', 0.15), (''vocabularyDistribution'', 0.15),
      (''templateMatching'', 0.25)]"

definition accountWeights :: "(string \<times> real) list" where
  "accountWeights =
     [(''accountAge'', 0.30), (''postingFrequency'', 0.25), (''reviewDiversity'', 0.20),
      (''profileCompleteness'', 0.15), (''networkConnections'', 0.10)]"

definition behavioralWeights :: "(string \<times> real) list" where
  "behavioralWeights =
     [(''timingCluster'', 0.35), (''coordinatedLanguage'', 0.35),
      (''ratingDistribution'', 0.30)]"

definition mediaWeights :: "(string \<times> real) list" where
  "mediaWeights =
     [(''reverseImageMatch'', 0.40), (''exifAnalysis'', 0.25), (''aiArtifacts'', 0.35)]"

definition weights :: "(string \<times> (string \<times> real) list) list" where
  "weights =
     [(''text'', textWeights), (''account'', accountWeights),
      (''behavioral'', behavioralWeights), (''media'', mediaWeights)]"

definition categoryWeights :: "(string \<times> real) list" where
  "categoryWeights =
     [(''text'', 0.30), (''account'', 0.25), (''behavioral'', 0.30), (''media'', 0.15)]"

definition threshold_HIGH_TRUST :: real where "threshold_HIGH_TRUST = 0.75"
definition threshold_MODERATE_TRUST :: real where "threshold_MODERATE_TRUST = 0.50"
definition threshold_LOW_TRUST :: real where "threshold_LOW_TRUST = 0.30"

text \<open>
  \<^verbatim>\<open>this.weights[category]\<close>: one of the four tables, or the object inherited under
  the category's name, or undefined.
\<close>

datatype weightTable = OwnTable "(string \<times> real) list" | InheritedObject string

definition weightsOf :: "string \<Rightarrow> weightTable option" where
  "weightsOf category =
     (case map_of weights category of
        Some table \<Rightarrow> Some (OwnTable table)
      | None \<Rightarrow>
          if category \<in> set objectPrototype then Some (InheritedObject category) else None)"

text \<open>\<^verbatim>\<open>weights[signalName]\<close> for either kind of \<^verbatim>\<open>weights\<close>.\<close>

fun readWeight :: "host \<Rightarrow> weightTable \<Rightarrow> string \<Rightarrow> propertyRead" where
  "readWeight h (OwnTable table) k = Value (plainRead table k)"
| "readWeight h (InheritedObject category) k = h category k"

text \<open>
  \<^verbatim>\<open>normalizedValue\<close>: the score a signal value carries, \<open>None\<close> where it is null or
  undefined.
\<close>

fun normalizedValue :: "signalValue \<Rightarrow> real option" where
  "normalizedValue SigNull = None"
| "normalizedValue SigUndefined = None"
| "normalizedValue (SigNumber x) = Some x"
| "normalizedValue (SigObject s d) = s"

text \<open>\<^verbatim>\<open>typeof signalValue === 'object' ? signalValue.detail : null\<close>.\<close>

fun detailOf :: "signalValue \<Rightarrow> string option" where
  "detailOf (SigObject s d) = d"
| "detailOf v = None"

text \<open>
  The two running sums of a loop, \<^verbatim>\<open>score\<close> and \<^verbatim>\<open>weightSum\<close>: both numbers, or,
  once a weight that is not a number has been added, NaN and a string.
\<close>

datatype totals = Numeric real real | NonNumeric

text \<open>\<^verbatim>\<open>score += value * weight; weightSum += weight\<close>, with \<^verbatim>\<open>weight = read || 0\<close>.\<close>

fun addWeighted :: "totals \<Rightarrow> real \<Rightarrow> weightValue \<Rightarrow> totals" where
  "addWeighted NonNumeric x w = NonNumeric"
| "addWeighted (Numeric score weightSum) x Absent = Numeric (score + x * 0) (weightSum + 0)"
| "addWeighted (Numeric score weightSum) x (NumberW y) = Numeric (score + x * y) (weightSum + y)"
| "addWeighted (Numeric score weightSum) x Exotic = NonNumeric"

text \<open>
  \<^verbatim>\<open>weightSum > 0 ? score / weightSum : 0.5\<close>; a string that is not a number fails
  the comparison.
\<close>

fun ratioOrHalf :: "totals \<Rightarrow> real" where
  "ratioOrHalf (Numeric score weightSum) = (if weightSum > 0 then score / weightSum else 0.5)"
| "ratioOrHalf NonNumeric = 0.5"

record catAcc =
  acc_totals :: totals
  acc_signalCount :: nat
  acc_issues :: "issue list"

definition mkIssue :: "string \<Rightarrow> string \<Rightarrow> signalValue \<Rightarrow> real \<Rightarrow> issue" where
  "mkIssue category signalName signalValue x =
     \<lparr>issue_category = category, issue_signal = signalName, issue_score = x,
      issue_detail = detailOf signalValue,
      issue_severity = (if x < 0.2 then High else Medium)\<rparr>"

text \<open>What one iteration of the loop of \<^verbatim>\<open>_scoreCatgory\<close> does with a value and its weight.\<close>

definition accumulate ::
  "string \<Rightarrow> catAcc \<Rightarrow> string \<times> signalValue \<Rightarrow> real \<Rightarrow> weightValue \<Rightarrow> catAcc" where
  "accumulate category acc entry x w =
     \<lparr>acc_totals = addWeighted (acc_totals acc) x w,
      acc_signalCount = acc_signalCount acc + 1,
      acc_issues =
        (if x < 0.4 then acc_issues acc @ [mkIssue category (fst entry) (snd entry) x]
         else acc_issues acc)\<rparr>"

definition emptyAcc :: catAcc where
  "emptyAcc = \<lparr>acc_totals = Numeric 0 0, acc_signalCount = 0, acc_issues = []\<rparr>"

definition finish :: "catAcc \<Rightarrow> categoryResult" where
  "finish acc =
     \<lparr>cat_score = ratioOrHalf (acc_totals acc), cat_signalCount = acc_signalCount acc,
      cat_issues = acc_issues acc\<rparr>"

text \<open>
  \<^verbatim>\<open>_scoreCatgory(category, signals, weights)\<close>, with \<open>rd\<close> the reads of
  \<^verbatim>\<open>weights\<close>. A null or undefined signal is skipped before its weight is read; a
  signal object without a score is skipped after.
\<close>

fun scoreSignalsOn ::
  "string \<Rightarrow> (string \<Rightarrow> propertyRead) \<Rightarrow> catAcc \<Rightarrow> signalGroup \<Rightarrow> jsError + catAcc" where
  "scoreSignalsOn category rd acc [] = Inr acc"
| "scoreSignalsOn category rd acc (e # es) =
     (if snd e = SigNull \<or> snd e = SigUndefined then scoreSignalsOn category rd acc es
      else
        (case rd (fst e) of
           Throws \<Rightarrow> Inl TypeError
         | Value w \<Rightarrow>
             (case normalizedValue (snd e) of
                None \<Rightarrow> scoreSignalsOn category rd acc es
              | Some x \<Rightarrow> scoreSignalsOn category rd (accumulate category acc e x w) es)))"

definition scoreCatgoryOn ::
  "string \<Rightarrow> signalGroup \<Rightarrow> (string \<Rightarrow> propertyRead) \<Rightarrow> jsError + categoryResult" where
  "scoreCatgoryOn category signals rd =
     (case scoreSignalsOn category rd emptyAcc signals of
        Inl err \<Rightarrow> Inl err
      | Inr acc \<Rightarrow> Inr (finish acc))"

text \<open>
  The same loop where every read returns; \<open>scoreCatgory\<close> is \<^verbatim>\<open>_scoreCatgory\<close> called
  with one of the scorer's own tables.
\<close>

fun scoreSignals ::
  "string \<Rightarrow> (string \<Rightarrow> weightValue) \<Rightarrow> catAcc \<Rightarrow> signalGroup \<Rightarrow> catAcc" where
  "scoreSignals category rd acc [] = acc"
| "scoreSignals category rd acc (e # es) =
     (case normalizedValue (snd e) of
        None \<Rightarrow> scoreSignals category rd acc es
      | Some x \<Rightarrow> scoreSignals category rd (accumulate category acc e x (rd (fst e))) es)"

definition scoreCatgory ::
  "string \<Rightarrow> signalGroup \<Rightarrow> (string \<times> real) list \<Rightarrow> categoryResult" where
  "scoreCatgory category signals table =
     finish (scoreSignals category (plainRead table) emptyAcc signals)"

definition getTrustLevel :: "real \<Rightarrow> trustLevel" where
  "getTrustLevel s =
     (if s \<ge> threshold_HIGH_TRUST then HIGH_TRUST
      else if s \<ge> threshold_MODERATE_TRUST then MODERATE_TRUST
      else if s \<ge> threshold_LOW_TRUST then LOW_TRUST
      else VERY_LOW_TRUST)"

definition plural :: "nat \<Rightarrow> string" where
  "plural n = (if n \<noteq> 1 then ''s'' else '''')"

definition generateMessage :: "trustLevel \<Rightarrow> issue list \<Rightarrow> real \<Rightarrow> string" where
  "generateMessage level issues confidence =
     (let confidenceQualifier = (if confidence < 0.5 then ''Limited data suggests'' else '''');
          n = length issues;
          base =
            (case level of
               HIGH_TRUST \<Rightarrow> ''This content appears authentic based on available signals.''
             | MODERATE_TRUST \<Rightarrow>
                 ''Mixed signals detected. '' @ showNat n @ '' potential concern'' @ plural n
                   @ '' found.''
             | LOW_TRUST \<Rightarrow>
                 ''Multiple markers suggest this content may not be authentic. '' @ showNat n
                   @ '' concern'' @ plural n @ '' flagged.''
             | VERY_LOW_TRUST \<Rightarrow>
                 ''Strong indicators of inauthentic content detected. '' @ showNat n
                   @ '' significant concern'' @ plural n @ '' found.''
             | INSUFFICIENT_DATA \<Rightarrow> ''Unable to assess.'')
      in if confidenceQualifier \<noteq> '''' then confidenceQualifier @ '': '' @ base else base)"

record scoreAcc =
  categoryScores :: "(string \<times> categoryResult) list"
  flaggedIssues :: "issue list"
  totalSignals :: nat

text \<open>
  \<^verbatim>\<open>categoryScores[category] = categoryResult\<close> on a plain object: under
  \<^verbatim>\<open>__proto__\<close> the assignment runs the inherited setter, which replaces the
  prototype and adds no entry.
\<close>

definition assignProperty ::
  "(string \<times> categoryResult) list \<Rightarrow> string \<Rightarrow> categoryResult \<Rightarrow> (string \<times> categoryResult) list"
  where
  "assignProperty entries k v = (if k = ''__proto__'' then entries else assign entries k v)"

text \<open>The first loop of \<^verbatim>\<open>computeScore\<close>, one bundle entry at a time.\<close>

definition scoreEntry :: "host \<Rightarrow> scoreAcc \<Rightarrow> string \<times> signalGroup \<Rightarrow> jsError + scoreAcc" where
  "scoreEntry h acc entry =
     (case weightsOf (fst entry) of
        None \<Rightarrow> Inr acc
      | Some table \<Rightarrow>
          (case scoreCatgoryOn (fst entry) (snd entry) (readWeight h table) of
             Inl err \<Rightarrow> Inl err
           | Inr categoryResult \<Rightarrow>
               if cat_signalCount categoryResult > 0
               then Inr \<lparr>categoryScores =
                           assignProperty (categoryScores acc) (fst entry) categoryResult,
                         flaggedIssues = flaggedIssues acc @ cat_issues categoryResult,
                         totalSignals = totalSignals acc + cat_signalCount categoryResult\<rparr>
               else Inr acc))"

fun scoreEntries :: "host \<Rightarrow> scoreAcc \<Rightarrow> signalBundle \<Rightarrow> jsError + scoreAcc" where
  "scoreEntries h acc [] = Inr acc"
| "scoreEntries h acc (e # es) =
     (case scoreEntry h acc e of
        Inl err \<Rightarrow> Inl err
      | Inr acc' \<Rightarrow> scoreEntries h acc' es)"

definition emptyScores :: scoreAcc where
  "emptyScores = \<lparr>categoryScores = [], flaggedIssues = [], totalSignals = 0\<rparr>"

text \<open>
  The second loop, over the entries of \<^verbatim>\<open>categoryScores\<close>, with
  \<^verbatim>\<open>weight = this.categoryWeights[category] || 0\<close>.
\<close>

fun weightedSum :: "totals \<Rightarrow> (string \<times> categoryResult) list \<Rightarrow> totals" where
  "weightedSum acc [] = acc"
| "weightedSum acc (entry # rest) =
     weightedSum (addWeighted acc (cat_score (snd entry)) (plainRead categoryWeights (fst entry)))
       rest"

definition finalScoreOf :: "(string \<times> categoryResult) list \<Rightarrow> real" where
  "finalScoreOf details = ratioOrHalf (weightedSum (Numeric 0 0) details)"

definition computeScore :: "host \<Rightarrow> config \<Rightarrow> signalBundle \<Rightarrow> jsError + trustResult" where
  "computeScore h cfg signals =
     (case scoreEntries h emptyScores signals of
        Inl err \<Rightarrow> Inl err
      | Inr acc \<Rightarrow>
          if real (totalSignals acc) < minSignalsRequired cfg
          then Inr \<lparr>res_score = None, res_level = INSUFFICIENT_DATA, res_confidence = 0,
                    res_message = ''Not enough data to assess authenticity'',
                    res_details = categoryScores acc, res_issues = [],
                    res_signalCount = totalSignals acc\<rparr>
          else
            (let finalScore = finalScoreOf (categoryScores acc);
                 signalCoverage = real (totalSignals acc) / 10;
                 confidence = min 1 signalCoverage * confidenceDecay cfg;
                 level = getTrustLevel finalScore;
                 message = generateMessage level (flaggedIssues acc) confidence
             in Inr \<lparr>res_score = Some finalScore, res_level = level,
                      res_confidence = confidence, res_message = message,
                      res_details = categoryScores acc, res_issues = flaggedIssues acc,
                      res_signalCount = totalSignals acc\<rparr>))"

text \<open>
  The quantities the loops accumulate, in closed form: which entries contribute (their
  score is neither null nor undefined), how many do, the numeric weight they carry,
  whether one of them carries a weight that is not a number, and the issues they raise.
\<close>

definition contributes :: "string \<times> signalValue \<Rightarrow> bool" where
  "contributes e = (case normalizedValue (snd e) of None \<Rightarrow> False | Some x \<Rightarrow> True)"

definition nonNullCount :: "signalGroup \<Rightarrow> nat" where
  "nonNullCount g = length (filter contributes g)"

fun nonNullSignals :: "signalBundle \<Rightarrow> nat" where
  "nonNullSignals [] = 0"
| "nonNullSignals (entry # rest) =
     (case weightsOf (fst entry) of None \<Rightarrow> 0 | Some table \<Rightarrow> nonNullCount (snd entry))
       + nonNullSignals rest"

fun numericWeight :: "weightValue \<Rightarrow> real" where
  "numericWeight (NumberW y) = y"
| "numericWeight w = 0"

definition weightTotal :: "(string \<Rightarrow> weightValue) \<Rightarrow> signalGroup \<Rightarrow> real" where
  "weightTotal rd g = (\<Sum>e\<leftarrow>filter contributes g. numericWeight (rd (fst e)))"

definition scoreTotal :: "(string \<Rightarrow> weightValue) \<Rightarrow> signalGroup \<Rightarrow> real" where
  "scoreTotal rd g =
     (\<Sum>e\<leftarrow>filter contributes g. the (normalizedValue (snd e)) * numericWeight (rd (fst e)))"

definition exoticWeight :: "(string \<Rightarrow> weightValue) \<Rightarrow> signalGroup \<Rightarrow> bool" where
  "exoticWeight rd g = list_ex (\<lambda>e. contributes e \<and> rd (fst e) = Exotic) g"

definition issuesOf :: "string \<Rightarrow> signalGroup \<Rightarrow> issue list" where
  "issuesOf category g =
     map (\<lambda>e. mkIssue category (fst e) (snd e) (the (normalizedValue (snd e))))
       (filter (\<lambda>e. contributes e \<and> the (normalizedValue (snd e)) < 0.4) g)"

text \<open>
  Whether \<^verbatim>\<open>_scoreCatgory\<close> throws: some signal that is neither null nor undefined
  has a weight whose read throws.
\<close>

definition readsThrow :: "(string \<Rightarrow> propertyRead) \<Rightarrow> signalGroup \<Rightarrow> bool" where
  "readsThrow rd g =
     list_ex (\<lambda>e. snd e \<noteq> SigNull \<and> snd e \<noteq> SigUndefined \<and> rd (fst e) = Throws) g"

fun valueRead :: "propertyRead \<Rightarrow> weightValue" where
  "valueRead (Value w) = w"
| "valueRead Throws = Absent"

definition entryThrows :: "host \<Rightarrow> string \<times> signalGroup \<Rightarrow> bool" where
  "entryThrows h entry =
     (case weightsOf (fst entry) of
        None \<Rightarrow> False
      | Some table \<Rightarrow> readsThrow (readWeight h table) (snd entry))"

text \<open>A signal the weight table gives no weight at all.\<close>

definition unweighted :: "(string \<times> real) list \<Rightarrow> string \<times> signalValue \<Rightarrow> bool" where
  "unweighted table e = (plainRead table (fst e) = Absent)"

text \<open>
  Scenario C of the specification: the five signals of the text category, each with
  score 0.9.
\<close>

definition scenarioC :: signalGroup where
  "scenarioC =
     [(''aiDetection'', SigObject (Some 0.9) None),
      (''repetitionPattern'', SigObject (Some 0.9) None),
      (''sentimentConsistency'', SigObject (Some 0.9) None),
      (''vocabularyDistribution'', SigObject (Some 0.9) None),
      (''templateMatching'', SigObject (Some 0.9) None)]"

text \<open>
  Groups used below: three non-null signals under names the text weight table does not
  know, five such signals scoring 0.9, and three account signals scoring 0.9.
\<close>

definition unweightedOnly :: signalGroup where
  "unweightedOnly = [(''foo'', SigNumber 0.1), (''bar'', SigNumber 0.1), (''baz'', SigNumber 0.1)]"

definition fiveUnknown :: signalGroup where
  "fiveUnknown =
     [(''a'', SigNumber 0.9), (''b'', SigNumber 0.9), (''c'', SigNumber 0.9),
      (''d'', SigNumber 0.9), (''e'', SigNumber 0.9)]"

definition agedAccount :: signalGroup where
  "agedAccount =
     [(''accountAge'', SigNumber 0.9), (''postingFrequency'', SigNumber 0.9),
      (''reviewDiversity'', SigNumber 0.9)]"

text \<open>
  A host for the examples: reading \<^verbatim>\<open>caller\<close> or \<^verbatim>\<open>arguments\<close> throws, as it does
  on a built-in function, and no other member is found.
\<close>

definition sampleHost :: host where
  "sampleHost inherited k =
     (if k = ''caller'' \<or> k = ''arguments'' then Throws else Value Absent)"

text \<open>
  What the final score, level and confidence read from the first loop's outcome: per
  category its key, score and signal count. Two outcomes are the same up to issue
  details when they agree on that, on the total and on the issues without their detail.
\<close>

definition catSummary :: "(string \<times> categoryResult) list \<Rightarrow> (string \<times> real \<times> nat) list" where
  "catSummary cs = map (\<lambda>(k, r). (k, cat_score r, cat_signalCount r)) cs"

definition issueCore :: "issue \<Rightarrow> string \<times> string \<times> real \<times> severity" where
  "issueCore i = (issue_category i, issue_signal i, issue_score i, issue_severity i)"

definition sameUpToDetail :: "scoreAcc \<Rightarrow> scoreAcc \<Rightarrow> bool" where
  "sameUpToDetail a a' =
     (catSummary (categoryScores a) = catSummary (categoryScores a')
      \<and> totalSignals a = totalSignals a'
      \<and> map issueCore (flaggedIssues a) = map issueCore (flaggedIssues a'))"

definition sameOutcome :: "jsError + scoreAcc \<Rightarrow> jsError + scoreAcc \<Rightarrow> bool" where
  "sameOutcome x y =
     (case (x, y) of
        (Inr a, Inr a') \<Rightarrow> sameUpToDetail a a'
      | (Inl err, Inl err') \<Rightarrow> err = err'
      | _ \<Rightarrow> False)"

text \<open>
  The weighted average of the second loop written out, for entries under the four
  category names.
\<close>

definition categoryWeight :: "string \<Rightarrow> real" where
  "categoryWeight category = numericWeight (plainRead categoryWeights category)"

definition weightedAverage :: "(string \<times> categoryResult) list \<Rightarrow> real" where
  "weightedAverage details =
     (if (\<Sum>d\<leftarrow>details. categoryWeight (fst d)) > 0
      then (\<Sum>d\<leftarrow>details. cat_score (snd d) * categoryWeight (fst d))
             / (\<Sum>d\<leftarrow>details. categoryWeight (fst d))
      else 0.5)"

text \<open>
  The entries the first loop leaves in \<^verbatim>\<open>categoryScores\<close> for a bundle whose keys
  are distinct and are not names a plain object inherits: one per category of the weight
  table that has a non-null signal, in the bundle's order.
\<close>

definition scoredCategories :: "signalBundle \<Rightarrow> (string \<times> categoryResult) list" where
  "scoredCategories b =
     concat (map (\<lambda>(c, g). case map_of weights c of
                               None \<Rightarrow> []
                             | Some t \<Rightarrow> if nonNullCount g > 0 then [(c, scoreCatgory c g t)] else [])
                 b)"

subsection \<open>AccountAnalyzer and ReviewerProfile\<close>

text \<open>
  A property of a JavaScript object as the analyzers test it: \<^verbatim>\<open>undefined\<close> (absent),
  \<^verbatim>\<open>null\<close>, or a value of the field's type. Dates are strings handed to
  \<^verbatim>\<open>new Date\<close>; star ratings are whole numbers.
\<close>

datatype 'a field = Undefined | Null | Val 'a

record reviewerProfile =
  displayName :: "string field"
  avatarUrl :: "string field"
  bio :: "string field"
  location :: "string field"
  accountCreated :: "string field"
  firstReviewDate :: "string field"
  totalReviews :: "real field"
  helpfulVotes :: "real field"
  ratings :: "nat list field"
  reviewDates :: "string list field"
  reviewCategories :: "string list field"
  reviewDate :: "string field"
  verifiedPurchase :: "bool field"

text \<open>Truthiness, by type: the empty string, 0 and false are falsy, every array is truthy.\<close>

fun truthyString :: "string field \<Rightarrow> bool" where
  "truthyString (Val s) = (s \<noteq> [])"
| "truthyString f = False"

fun truthyNumber :: "real field \<Rightarrow> bool" where
  "truthyNumber (Val x) = (x \<noteq> 0)"
| "truthyNumber f = False"

fun truthyArray :: "'a list field \<Rightarrow> bool" where
  "truthyArray (Val xs) = True"
| "truthyArray f = False"

fun truthyBool :: "bool field \<Rightarrow> bool" where
  "truthyBool (Val b) = b"
| "truthyBool f = False"

text \<open>The constructor: \<^verbatim>\<open>this.f = data.f || default\<close>, field by field.\<close>

definition ReviewerProfile :: "reviewerProfile \<Rightarrow> reviewerProfile" where
  "ReviewerProfile data =
     \<lparr>displayName = (if truthyString (displayName data) then displayName data else Null),
      avatarUrl = (if truthyString (avatarUrl data) then avatarUrl data else Null),
      bio = (if truthyString (bio data) then bio data else Null),
      location = (if truthyString (location data) then location data else Null),
      accountCreated =
        (if truthyString (accountCreated data) then accountCreated data else Null),
      firstReviewDate =
        (if truthyString (firstReviewDate data) then firstReviewDate data else Null),
      totalReviews = (if truthyNumber (totalReviews data) then totalReviews data else Null),
      helpfulVotes = (if truthyNumber (helpfulVotes data) then helpfulVotes data else Null),
      ratings = (if truthyArray (ratings data) then ratings data else Val []),
      reviewDates = (if truthyArray (reviewDates data) then reviewDates data else Val []),
      reviewCategories =
        (if truthyArray (reviewCategories data) then reviewCategories data else Val []),
      reviewDate = (if truthyString (reviewDate data) then reviewDate data else Null),
      verifiedPurchase =
        (if truthyBool (verifiedPurchase data) then verifiedPurchase data else Val False)\<rparr>"

text \<open>The argument \<^verbatim>\<open>{}\<close>: every field absent.\<close>

definition emptyData :: reviewerProfile where
  "emptyData =
     \<lparr>displayName = Undefined, avatarUrl = Undefined, bio = Undefined, location = Undefined,
      accountCreated = Undefined, firstReviewDate = Undefined, totalReviews = Undefined,
      helpfulVotes = Undefined, ratings = Undefined, reviewDates = Undefined,
      reviewCategories = Undefined, reviewDate = Undefined, verifiedPurchase = Undefined\<rparr>"

text \<open>The same data with every falsy field left out.\<close>

definition dropFalsy :: "reviewerProfile \<Rightarrow> reviewerProfile" where
  "dropFalsy data =
     \<lparr>displayName = (if truthyString (displayName data) then displayName data else Undefined),
      avatarUrl = (if truthyString (avatarUrl data) then avatarUrl data else Undefined),
      bio = (if truthyString (bio data) then bio data else Undefined),
      location = (if truthyString (location data) then location data else Undefined),
      accountCreated =
        (if truthyString (accountCreated data) then accountCreated data else Undefined),
      firstReviewDate =
        (if truthyString (firstReviewDate data) then firstReviewDate data else Undefined),
      totalReviews =
        (if truthyNumber (totalReviews data) then totalReviews data else Undefined),
      helpfulVotes =
        (if truthyNumber (helpfulVotes data) then helpfulVotes data else Undefined),
      ratings = (if truthyArray (ratings data) then ratings data else Undefined),
      reviewDates = (if truthyArray (reviewDates data) then reviewDates data else Undefined),
      reviewCategories =
        (if truthyArray (reviewCategories data) then reviewCategories data else Undefined),
      reviewDate = (if truthyString (reviewDate data) then reviewDate data else Undefined),
      verifiedPurchase =
        (if truthyBool (verifiedPurchase data) then verifiedPurchase data else Undefined)\<rparr>"

text \<open>A detector's output object; a detector that returns \<^verbatim>\<open>null\<close> returns \<open>None\<close>.\<close>

record signalOutput =
  sig_score :: real
  sig_detail :: "string option"

text \<open>
  \<^verbatim>\<open>_scoreAccountAge\<close>. \<open>now\<close> is \<^verbatim>\<open>Date.now()\<close> and \<open>parseDate s\<close> is
  \<^verbatim>\<open>new Date(s).getTime()\<close>, \<open>None\<close> for an invalid date (NaN, which fails every
  comparison).
\<close>

definition scoreAccountAge ::
  "real \<Rightarrow> (string \<Rightarrow> real option) \<Rightarrow> reviewerProfile \<Rightarrow> signalOutput option" where
  "scoreAccountAge now parseDate profile =
     (if \<not> truthyString (accountCreated profile) \<and> \<not> truthyString (firstReviewDate profile)
      then None
      else
        (let referenceDate =
               (if truthyString (accountCreated profile) then accountCreated profile
                else firstReviewDate profile);
             ageDays =
               (case referenceDate of
                  Val s \<Rightarrow> map_option (\<lambda>t. (now - t) / (1000 * 60 * 60 * 24)) (parseDate s)
                | _ \<Rightarrow> None)
         in case ageDays of
              None \<Rightarrow> Some \<lparr>sig_score = 0.9, sig_detail = None\<rparr>
            | Some a \<Rightarrow>
                if a < 7
                then Some \<lparr>sig_score = 0.1,
                           sig_detail = Some ''Account created within the last week''\<rparr>
                else if a < 30
                then Some \<lparr>sig_score = 0.3,
                           sig_detail = Some ''Account less than 30 days old''\<rparr>
                else if a < 90 then Some \<lparr>sig_score = 0.6, sig_detail = None\<rparr>
                else Some \<lparr>sig_score = 0.9, sig_detail = None\<rparr>))"

text \<open>
  \<^verbatim>\<open>_scorePostingFrequency\<close>. The key \<^verbatim>\<open>toISOString().split('T')[0]\<close> is the UTC
  calendar day, here the day number; \<^verbatim>\<open>toISOString\<close> throws on an invalid date.
\<close>

definition dayKey :: "real \<Rightarrow> int" where
  "dayKey t = \<lfloor>t / 86400000\<rfloor>"

fun parseAll :: "(string \<Rightarrow> real option) \<Rightarrow> string list \<Rightarrow> real list option" where
  "parseAll parseDate [] = Some []"
| "parseAll parseDate (d # ds) =
     (case parseDate d of
        None \<Rightarrow> None
      | Some t \<Rightarrow> map_option ((#) t) (parseAll parseDate ds))"

definition maxOf :: "nat list \<Rightarrow> nat" where
  "maxOf xs = fold max xs 0"

definition scorePostingFrequency ::
  "(string \<Rightarrow> real option) \<Rightarrow> reviewerProfile \<Rightarrow> jsError + signalOutput option" where
  "scorePostingFrequency parseDate profile =
     (case reviewDates profile of
        Val ds \<Rightarrow>
          if length ds < 2 then Inr None
          else
            (case parseAll parseDate ds of
               None \<Rightarrow> Inl RangeError
             | Some ts \<Rightarrow>
                 (let dates = sort ts;
                      dateCounts = countAll [] (map dayKey dates);
                      maxInOneDay = maxOf (map snd dateCounts);
                      avgPerDay = real (length dates) / real (length dateCounts)
                  in if maxInOneDay > 5
                     then Inr (Some \<lparr>sig_score = 0.15,
                            sig_detail =
                              Some (showNat maxInOneDay @ '' reviews posted on a single day'')\<rparr>)
                     else if avgPerDay > 3
                     then Inr (Some \<lparr>sig_score = 0.3,
                            sig_detail = Some ''Unusually high review frequency''\<rparr>)
                     else Inr (Some \<lparr>sig_score = 0.8, sig_detail = None\<rparr>)))
      | _ \<Rightarrow> Inr None)"

text \<open>
  \<^verbatim>\<open>_scoreReviewDiversity\<close>. An object lists integer keys in ascending order, so the
  stable sort by descending count puts first the least rating among the most frequent.
\<close>

definition dominantRating :: "(nat \<times> nat) list \<Rightarrow> nat" where
  "dominantRating ratingCounts =
     (case filter (\<lambda>e. snd e = maxOf (map snd ratingCounts)) (sort_key fst ratingCounts) of
        [] \<Rightarrow> 0
      | e # es \<Rightarrow> fst e)"

text \<open>
  \<^verbatim>\<open>Math.round\<close> of a non-negative number. It is applied to the exact percentage,
  where the source rounds the product it computed in doubles.
\<close>

definition mathRound :: "real \<Rightarrow> nat" where
  "mathRound x = nat \<lfloor>x + 1 / 2\<rfloor>"

definition scoreReviewDiversity :: "reviewerProfile \<Rightarrow> signalOutput option" where
  "scoreReviewDiversity profile =
     (case ratings profile of
        Val rs \<Rightarrow>
          if length rs < 3 then None
          else
            (let ratingCounts = countAll [] rs;
                 maxRatingPct = real (maxOf (map snd ratingCounts)) / real (length rs)
             in if maxRatingPct \<ge> 0.9
                then Some \<lparr>sig_score = 0.2,
                       sig_detail =
                         Some (showNat (mathRound (maxRatingPct * 100)) @ ''% of reviews are ''
                               @ showNat (dominantRating ratingCounts) @ ''-star'')\<rparr>
                else if (case reviewCategories profile of
                           Val cats \<Rightarrow>
                             real (length (remdups cats)) / real (length cats) < 0.1
                             \<and> length cats > 10
                         | _ \<Rightarrow> False)
                then Some \<lparr>sig_score = 0.35,
                       sig_detail = Some ''Reviews concentrated in a single product category''\<rparr>
                else
                  (let ratingSpread = length ratingCounts;
                       diversityScore =
                         min 1 ((real ratingSpread / 5) * 0.5 + (1 - maxRatingPct) * 0.5)
                   in Some \<lparr>sig_score = max 0.4 diversityScore, sig_detail = None\<rparr>))
      | _ \<Rightarrow> None)"

text \<open>\<^verbatim>\<open>_scoreProfileCompleteness\<close>: how many of the six fields are truthy.\<close>

definition completeness :: "reviewerProfile \<Rightarrow> nat" where
  "completeness profile =
     (if truthyString (displayName profile) then 1 else 0)
     + (if truthyString (avatarUrl profile) then 1 else 0)
     + (if truthyString (bio profile) then 1 else 0)
     + (if truthyString (location profile) then 1 else 0)
     + (if truthyNumber (helpfulVotes profile) then 1 else 0)
     + (if truthyNumber (totalReviews profile) then 1 else 0)"

definition scoreProfileCompleteness :: "reviewerProfile \<Rightarrow> signalOutput" where
  "scoreProfileCompleteness profile =
     (let score = real (completeness profile) / 6
      in if score < 0.3
         then \<lparr>sig_score = 0.3, sig_detail = Some ''Minimal profile information''\<rparr>
         else \<lparr>sig_score = max 0.5 score, sig_detail = None\<rparr>)"

text \<open>
  \<^verbatim>\<open>_scoreNetworkSignals\<close>. The guard is \<^verbatim>\<open>helpfulVotes !== undefined\<close>; in the
  division \<^verbatim>\<open>null\<close> converts to 0.
\<close>

fun toNumber :: "real field \<Rightarrow> real option" where
  "toNumber Undefined = None"
| "toNumber Null = Some 0"
| "toNumber (Val x) = Some x"

definition scoreNetworkSignals :: "reviewerProfile \<Rightarrow> signalOutput option" where
  "scoreNetworkSignals profile =
     (if helpfulVotes profile \<noteq> Undefined \<and> truthyNumber (totalReviews profile)
      then
        (case (toNumber (helpfulVotes profile), totalReviews profile) of
           (Some h, Val n) \<Rightarrow>
             (let helpfulRatio = h / n
              in if helpfulRatio < 0.1 \<and> n > 20
                 then Some \<lparr>sig_score = 0.4,
                        sig_detail = Some ''Very low helpful vote ratio despite many reviews''\<rparr>
                 else if helpfulRatio > 1 then Some \<lparr>sig_score = 0.9, sig_detail = None\<rparr>
                 else None)
         | _ \<Rightarrow> None)
      else None)"

record accountSignals =
  accountAge :: "signalOutput option"
  postingFrequency :: "signalOutput option"
  reviewDiversity :: "signalOutput option"
  profileCompleteness :: "signalOutput option"
  networkConnections :: "signalOutput option"

definition analyzeAccount ::
  "real \<Rightarrow> (string \<Rightarrow> real option) \<Rightarrow> reviewerProfile \<Rightarrow> jsError + accountSignals" where
  "analyzeAccount now parseDate profile =
     (case scorePostingFrequency parseDate profile of
        Inl err \<Rightarrow> Inl err
      | Inr frequency \<Rightarrow>
          Inr \<lparr>accountAge = scoreAccountAge now parseDate profile,
               postingFrequency = frequency,
               reviewDiversity = scoreReviewDiversity profile,
               profileCompleteness = Some (scoreProfileCompleteness profile),
               networkConnections = scoreNetworkSignals profile\<rparr>)"

text \<open>Two constructor arguments used below.\<close>

definition manyReviewsData :: reviewerProfile where
  "manyReviewsData = emptyData\<lparr>totalReviews := Val 25\<rparr>"

subsection \<open>Strings\<close>

text \<open>
  A text is the list of its code units, each below 256. Among these \<^verbatim>\<open>\s\<close>, and
  what \<^verbatim>\<open>trim\<close> removes, is space, tab, line feed, vertical tab, form feed,
  carriage return and the no-break space \<^verbatim>\<open>U+00A0\<close>; \<^verbatim>\<open>\w\<close> is an ASCII letter,
  a digit or the underscore.
\<close>

definition isSpace :: "char \<Rightarrow> bool" where
  "isSpace c =
     (c \<in> set [CHR '' '', CHR 0x09, CHR 0x0A, CHR 0x0B, CHR 0x0C, CHR 0x0D, CHR 0xA0])"

definition isLower :: "char \<Rightarrow> bool" where
  "isLower c = (c \<in> set ''abcdefghijklmnopqrstuvwxyz'')"

definition isUpper :: "char \<Rightarrow> bool" where
  "isUpper c = (c \<in> set ''ABCDEFGHIJKLMNOPQRSTUVWXYZ'')"

definition isDigit :: "char \<Rightarrow> bool" where
  "isDigit c = (c \<in> set ''0123456789'')"

definition isWordChar :: "char \<Rightarrow> bool" where
  "isWordChar c = (isLower c \<or> isUpper c \<or> isDigit c \<or> c = CHR ''_'')"

text \<open>
  \<^verbatim>\<open>toLowerCase\<close>, one code unit at a time: the letters \<^verbatim>\<open>A\<close> to \<^verbatim>\<open>Z\<close> and the
  capitals \<^verbatim>\<open>U+00C0\<close> to \<^verbatim>\<open>U+00DE\<close> (without the sign \<^verbatim>\<open>U+00D7\<close>) move up by
  32, every other code unit below 256 stays.
\<close>

definition upperLetters :: string where
  "upperLetters =
     ''ABCDEFGHIJKLMNOPQRSTUVWXYZ'' @
     [CHR 0xC0, CHR 0xC1, CHR 0xC2, CHR 0xC3, CHR 0xC4, CHR 0xC5, CHR 0xC6, CHR 0xC7,
      CHR 0xC8, CHR 0xC9, CHR 0xCA, CHR 0xCB, CHR 0xCC, CHR 0xCD, CHR 0xCE, CHR 0xCF,
      CHR 0xD0, CHR 0xD1, CHR 0xD2, CHR 0xD3, CHR 0xD4, CHR 0xD5, CHR 0xD6, CHR 0xD8,
      CHR 0xD9, CHR 0xDA, CHR 0xDB, CHR 0xDC, CHR 0xDD, CHR 0xDE]"

definition lowerLetters :: string where
  "lowerLetters =
     ''abcdefghijklmnopqrstuvwxyz'' @
     [CHR 0xE0, CHR 0xE1, CHR 0xE2, CHR 0xE3, CHR 0xE4, CHR 0xE5, CHR 0xE6, CHR 0xE7,
      CHR 0xE8, CHR 0xE9, CHR 0xEA, CHR 0xEB, CHR 0xEC, CHR 0xED, CHR 0xEE, CHR 0xEF,
      CHR 0xF0, CHR 0xF1, CHR 0xF2, CHR 0xF3, CHR 0xF4, CHR 0xF5, CHR 0xF6, CHR 0xF8,
      CHR 0xF9, CHR 0xFA, CHR 0xFB, CHR 0xFC, CHR 0xFD, CHR 0xFE]"

definition lowerChar :: "char \<Rightarrow> char" where
  "lowerChar c = (case map_of (zip upperLetters lowerLetters) c of None \<Rightarrow> c | Some l \<Rightarrow> l)"

definition toLowerCase :: "string \<Rightarrow> string" where
  "toLowerCase s = map lowerChar s"

definition trim :: "string \<Rightarrow> string" where
  "trim s = rev (dropWhile isSpace (rev (dropWhile isSpace s)))"

text \<open>
  \<^verbatim>\<open>s.split(/[sep]+/)\<close>: the pieces between maximal runs of separators; a leading or
  trailing run leaves an empty piece, and the empty string has one empty piece. The flag
  says that the previous character was a separator.
\<close>

fun splitRuns :: "(char \<Rightarrow> bool) \<Rightarrow> bool \<Rightarrow> string \<Rightarrow> string list" where
  "splitRuns sep inRun [] = [[]]"
| "splitRuns sep inRun (c # cs) =
     (if sep c then (if inRun then splitRuns sep True cs else [] # splitRuns sep True cs)
      else (case splitRuns sep False cs of
              [] \<Rightarrow> [[c]]
            | w # ws \<Rightarrow> (c # w) # ws))"

definition splitWhitespace :: "string \<Rightarrow> string list" where
  "splitWhitespace s = splitRuns isSpace False s"

definition isSentenceEnd :: "char \<Rightarrow> bool" where
  "isSentenceEnd c = (c \<in> set ''.!?'')"

definition splitSentences :: "string \<Rightarrow> string list" where
  "splitSentences s = splitRuns isSentenceEnd False s"

fun joinSpace :: "string list \<Rightarrow> string" where
  "joinSpace [] = []"
| "joinSpace [w] = w"
| "joinSpace (w # ws) = w @ CHR '' '' # joinSpace ws"

fun startsWith :: "string \<Rightarrow> string \<Rightarrow> bool" where
  "startsWith s [] = True"
| "startsWith [] (p # ps) = False"
| "startsWith (c # cs) (p # ps) = (c = p \<and> startsWith cs ps)"

text \<open>\<^verbatim>\<open>s.includes(p)\<close>.\<close>

fun includesStr :: "string \<Rightarrow> string \<Rightarrow> bool" where
  "includesStr [] p = startsWith [] p"
| "includesStr (c # cs) p = (startsWith (c # cs) p \<or> includesStr cs p)"

text \<open>Whether a regular expression without anchors matches somewhere: at some suffix.\<close>

fun matchesSomewhere :: "(string \<Rightarrow> bool) \<Rightarrow> string \<Rightarrow> bool" where
  "matchesSomewhere matchesAt [] = matchesAt []"
| "matchesSomewhere matchesAt (c # cs) = (matchesAt (c # cs) \<or> matchesSomewhere matchesAt cs)"

text \<open>
  \<^verbatim>\<open>text.match(new RegExp(phrase, 'gi'))\<close> for an escaped, non-empty, lower-case
  phrase: the number of non-overlapping occurrences, scanning from the left; after a
  match the scan resumes behind it (\<open>skip\<close> characters still to pass).
\<close>

fun countOccurrences :: "nat \<Rightarrow> string \<Rightarrow> string \<Rightarrow> nat" where
  "countOccurrences skip [] p = 0"
| "countOccurrences skip (c # cs) p =
     (if skip > 0 then countOccurrences (skip - 1) cs p
      else if startsWith (c # cs) p then 1 + countOccurrences (length p - 1) cs p
      else countOccurrences 0 cs p)"

definition matchCountPhrase :: "string \<Rightarrow> string \<Rightarrow> nat" where
  "matchCountPhrase s phrase = countOccurrences 0 (toLowerCase s) phrase"

text \<open>
  The same for \<^verbatim>\<open>\bword\b\<close>, where the word begins and ends with a letter: the
  character before a match, and the one behind it, is not a word character.
\<close>

definition boundaryAhead :: "string \<Rightarrow> bool" where
  "boundaryAhead rest = (case rest of [] \<Rightarrow> True | d # ds \<Rightarrow> \<not> isWordChar d)"

fun countWordOccurrences :: "nat \<Rightarrow> bool \<Rightarrow> string \<Rightarrow> string \<Rightarrow> nat" where
  "countWordOccurrences skip afterWord [] w = 0"
| "countWordOccurrences skip afterWord (c # cs) w =
     (if skip > 0 then countWordOccurrences (skip - 1) (isWordChar c) cs w
      else if \<not> afterWord \<and> startsWith (c # cs) w \<and> boundaryAhead (drop (length w) (c # cs))
      then 1 + countWordOccurrences (length w - 1) (isWordChar c) cs w
      else countWordOccurrences 0 (isWordChar c) cs w)"

definition matchCountWord :: "string \<Rightarrow> string \<Rightarrow> nat" where
  "matchCountWord s w = countWordOccurrences 0 False (toLowerCase s) w"

text \<open>\<^verbatim>\<open>word.replace(/[^a-z]/g, '')\<close>.\<close>

definition lettersOnly :: "string \<Rightarrow> string" where
  "lettersOnly w = filter isLower w"

subsection \<open>TextAnalyzer\<close>

definition aiTellPhrases :: "string list" where
  "aiTellPhrases =
     [''it'' @ [CHR 0x27] @ ''s worth noting'', ''it is worth noting'', ''a testament to'',
      ''game-changer'', ''game changer'', ''delve into'', ''tapestry'', ''multifaceted'',
      ''in today'' @ [CHR 0x27] @ ''s world'', ''in the realm of'', ''navigating the'',
      ''stands out as'', ''it should be noted'', ''in this regard'', ''underscores'',
      ''fostering'', ''holistic'', ''elevate the'', ''elevates the'', ''truly remarkable'',
      ''new heights'', ''commitment to excellence'', ''user experience'',
      ''attention to detail is'', ''works flawlessly'',
      ''couldn'' @ [CHR 0x27] @ ''t be happier'', ''changed my daily routine'',
      ''both elegant and practical'']"

definition hypeWords :: "string list" where
  "hypeWords =
     [''amazing'', ''incredible'', ''fantastic'', ''exceptional'', ''remarkable'',
      ''outstanding'', ''unbeatable'', ''flawlessly'', ''truly'', ''absolutely'',
      ''every way'', ''everyone'', ''definitely'', ''certainly'']"

definition fakeReviewTemplates :: "string list" where
  "fakeReviewTemplates =
     [''i bought this for my'', ''i purchased this for'', ''my husband/wife loves'',
      ''exactly as described'', ''exactly what i needed'', ''highly recommend this product'',
      ''five stars all the way'', ''exceeded my expectations'',
      ''i was skeptical at first but'', ''worth every penny'',
      ''great quality for the price'', ''you won'' @ [CHR 0x27] @ ''t be disappointed'',
      ''must have product'', ''i'' @ [CHR 0x27] @ ''ve tried many similar products'',
      ''this is by far the best'', ''don'' @ [CHR 0x27] @ ''t hesitate to buy'',
      ''arrived quickly and well packaged'']"

text \<open>
  \<^verbatim>\<open>_detectAIPatterns\<close>. On the empty text both densities are NaN in the source and
  0 here; either way no penalty applies, since both counts are 0.
\<close>

definition detectAIPatterns :: "string \<Rightarrow> signalOutput" where
  "detectAIPatterns text =
     (let aiPhraseCount = sum_list (map (matchCountPhrase text) aiTellPhrases);
          foundPhrases = filter (\<lambda>phrase. matchCountPhrase text phrase > 0) aiTellPhrases;
          density = real aiPhraseCount / (real (length text) / 500);
          hypeCount = sum_list (map (matchCountWord text) hypeWords);
          hypeDensity = real hypeCount / (real (length text) / 500);
          score1 = (if aiPhraseCount > 0 then 1 - min 0.5 (density * 0.25) else 1);
          score2 = (if hypeDensity > 3 then score1 - min 0.4 ((hypeDensity - 2) * 0.1)
                    else score1)
      in \<lparr>sig_score = max 0 (min 1 score2),
          sig_detail =
            (if length foundPhrases > 0 \<or> hypeCount > 3
             then Some (''Found '' @ showNat aiPhraseCount @ '' AI-associated phrases, ''
                        @ showNat hypeCount @ '' hype words'')
             else None)\<rparr>)"

text \<open>\<^verbatim>\<open>_extractNgrams\<close>.\<close>

definition ngramsOf :: "string list \<Rightarrow> nat \<Rightarrow> string list" where
  "ngramsOf ws n = map (\<lambda>i. joinSpace (take n (drop i ws))) [0 ..< length ws + 1 - n]"

definition extractNgrams :: "string \<Rightarrow> nat \<Rightarrow> string list" where
  "extractNgrams text n = ngramsOf (filter (\<lambda>w. length w > 0) (splitWhitespace text)) n"

definition connectives :: "string list" where
  "connectives =
     [''because'', ''since'', ''so'', ''which'', ''where'', ''when'', ''after'', ''before'',
      ''while'', ''then'']"

definition sentenceWords :: "string \<Rightarrow> string list" where
  "sentenceWords s = splitWhitespace (trim s)"

text \<open>\<^verbatim>\<open>_analyzeRepetition\<close>.\<close>

definition analyzeRepetition :: "string \<Rightarrow> signalOutput" where
  "analyzeRepetition text =
     (let sentences = filter (\<lambda>s. length (trim s) > 10) (splitSentences text)
      in if length sentences < 2 then \<lparr>sig_score = 0.5, sig_detail = None\<rparr>
         else
           (let trigrams = extractNgrams text 3;
                trigramCounts = countAll [] trigrams;
                repeatedTrigrams = length (filter (\<lambda>count. count > 2) (map snd trigramCounts));
                trigramRepetitionRate = real repeatedTrigrams / real (max 1 (length trigrams));
                starts = map (\<lambda>s. joinSpace (take 3 (sentenceWords s))) sentences;
                uniqueStarts = length (remdups starts);
                startDiversity = real uniqueStarts / real (length starts);
                avgSentenceLength =
                  real (sum_list (map (\<lambda>s. length (sentenceWords s)) sentences))
                    / real (length sentences);
                sentenceLengthVariance =
                  sum_list (map (\<lambda>s. (real (length (sentenceWords s)) - avgSentenceLength)\<^sup>2)
                              sentences)
                    / real (length sentences);
                formulaic1 =
                  (if sentenceLengthVariance < 8 \<and> length sentences \<ge> 3 then 0.3 else 0);
                connectiveCount =
                  length (filter (\<lambda>word. lettersOnly (toLowerCase word) \<in> set connectives)
                            (splitWhitespace text));
                formulaicScore =
                  (if connectiveCount = 0 \<and> length sentences \<ge> 4 then formulaic1 + 0.2
                   else formulaic1);
                score =
                  1 - (1 - startDiversity) * 0.3
                    - min 0.3 (trigramRepetitionRate * 50 * 0.3) - formulaicScore
            in \<lparr>sig_score = max 0 (min 1 score),
                sig_detail =
                  (if score < 0.5
                   then Some (''Formulaic structure detected: '' @ showNat repeatedTrigrams
                              @ '' repeated phrases, low sentence variation'')
                   else None)\<rparr>))"

definition positiveWords :: "string list" where
  "positiveWords =
     [''great'', ''amazing'', ''excellent'', ''perfect'', ''love'', ''best'', ''wonderful'',
      ''fantastic'', ''awesome'', ''incredible'', ''superb'', ''outstanding'', ''brilliant'',
      ''magnificent'', ''terrific'', ''fabulous'', ''happy'', ''recommend'']"

definition negativeWords :: "string list" where
  "negativeWords =
     [''bad'', ''terrible'', ''awful'', ''worst'', ''hate'', ''horrible'', ''poor'',
      ''disappointing'', ''broken'', ''waste'', ''junk'', ''useless'', ''defective'',
      ''cheap'', ''flimsy'', ''garbage'']"

definition hedgingWords :: "string list" where
  "hedgingWords =
     [''but'', ''however'', ''although'', ''though'', ''except'', ''unless'', ''somewhat'',
      ''slightly'', ''minor'', ''small issue'', ''only complaint'', ''downside'', ''only'',
      ''wish'', ''could be'', ''not perfect'']"

text \<open>
  The five specificity markers, each as the test whether the expression matches at the
  start of a suffix. The two with the flag \<^verbatim>\<open>i\<close> are run on the lower-cased text.
\<close>

definition measureUnits :: "string list" where
  "measureUnits =
     [''inch'', ''mm'', ''cm'', ''lb'', ''kg'', ''oz'', ''gb'', ''mb'', ''watt'', ''hour'',
      ''day'', ''week'', ''month'', ''minute'']"

definition measureAt :: "string \<Rightarrow> bool" where
  "measureAt s =
     (case s of
        [] \<Rightarrow> False
      | d # rest \<Rightarrow>
          isDigit d
          \<and> (\<exists>u\<in>set measureUnits. startsWith (dropWhile isSpace (dropWhile isDigit rest)) u))"

definition fractionAt :: "string \<Rightarrow> bool" where
  "fractionAt s =
     (case s of a # b # c # rest \<Rightarrow> isDigit a \<and> b = CHR ''/'' \<and> isDigit c | _ \<Rightarrow> False)"

definition priceAt :: "string \<Rightarrow> bool" where
  "priceAt s = (case s of a # b # rest \<Rightarrow> a = CHR ''$'' \<and> isDigit b | _ \<Rightarrow> False)"

definition properNounAt :: "string \<Rightarrow> bool" where
  "properNounAt s =
     (case s of
        [] \<Rightarrow> False
      | a # rest \<Rightarrow>
          isUpper a \<and> takeWhile isLower rest \<noteq> []
          \<and> (case dropWhile isLower rest of
                sp # u # others \<Rightarrow> sp = CHR '' '' \<and> isUpper u
              | _ \<Rightarrow> False))"

definition familyMembers :: "string list" where
  "familyMembers =
     [''wife'', ''husband'', ''son'', ''daughter'', ''mom'', ''dad'', ''friend'', ''sister'',
      ''brother'', ''kid'']"

definition familyAt :: "string \<Rightarrow> bool" where
  "familyAt s = (\<exists>m\<in>set familyMembers. startsWith s (''my '' @ m))"

definition specificity :: "string \<Rightarrow> nat" where
  "specificity text =
     (if matchesSomewhere measureAt (toLowerCase text) then 1 else 0)
     + (if matchesSomewhere fractionAt text then 1 else 0)
     + (if matchesSomewhere priceAt text then 1 else 0)
     + (if matchesSomewhere properNounAt text then 1 else 0)
     + (if matchesSomewhere familyAt (toLowerCase text) then 1 else 0)"

text \<open>\<^verbatim>\<open>_analyzeSentiment\<close>.\<close>

definition analyzeSentiment :: "string \<Rightarrow> signalOutput" where
  "analyzeSentiment text =
     (let words = splitWhitespace text;
          wordCount = length words;
          posCount = length (filter (\<lambda>word. lettersOnly word \<in> set positiveWords) words);
          negCount = length (filter (\<lambda>word. lettersOnly word \<in> set negativeWords) words);
          hedgeCount = length (filter (\<lambda>word. lettersOnly word \<in> set hedgingWords) words);
          posDensity = real posCount / real wordCount;
          specificityScore = specificity text
      in if posDensity > 0.06 \<and> hedgeCount = 0 \<and> negCount = 0 \<and> specificityScore = 0
         then \<lparr>sig_score = 0.15,
                sig_detail = Some ''Uniformly positive with no nuance or specific details''\<rparr>
         else if posDensity > 0.08 \<and> specificityScore = 0
         then \<lparr>sig_score = 0.30,
                sig_detail = Some ''Very high praise density without concrete details''\<rparr>
         else if posDensity > 0.06 \<and> hedgeCount = 0 \<and> negCount = 0 \<and> specificityScore > 0
         then \<lparr>sig_score = 0.45,
                sig_detail = Some ''Positive without hedging but contains specific details''\<rparr>
         else if hedgeCount > 0 \<or> (posCount > 0 \<and> negCount > 0)
         then \<lparr>sig_score = 0.85, sig_detail = None\<rparr>
         else \<lparr>sig_score = 0.6, sig_detail = None\<rparr>)"

definition vagueWords :: "string list" where
  "vagueWords =
     [''product'', ''item'', ''thing'', ''purchase'', ''quality'', ''price'', ''everything'',
      ''everyone'', ''anyone'', ''nothing'', ''something'', ''ever'', ''always'', ''never'',
      ''every'', ''very'', ''really'', ''just'', ''amazing'', ''great'', ''good'', ''nice'',
      ''best'', ''love'', ''happy'']"

text \<open>\<^verbatim>\<open>_analyzeVocabulary\<close>.\<close>

definition analyzeVocabulary :: "string \<Rightarrow> signalOutput" where
  "analyzeVocabulary text =
     (let words = filter (\<lambda>w. length w > 2) (map lettersOnly (splitWhitespace text))
      in if length words < 20 then \<lparr>sig_score = 0.5, sig_detail = None\<rparr>
         else
           (let typeTokenRatio = real (length (remdups words)) / real (length words);
                vagueCount = length (filter (\<lambda>word. word \<in> set vagueWords) words);
                vagueDensity = real vagueCount / real (length words);
                score1 =
                  (if typeTokenRatio > 0.85 \<and> length words > 100 then 0.5
                   else if typeTokenRatio < 0.3 then 0.35
                   else 0.7 + typeTokenRatio * 0.2);
                score2 =
                  (if vagueDensity > 0.20 then score1 - 0.35
                   else if vagueDensity > 0.15 then score1 - 0.2
                   else score1);
                avgWordLength = real (sum_list (map length words)) / real (length words);
                wordLengthVariance =
                  sum_list (map (\<lambda>w. (real (length w) - avgWordLength)\<^sup>2) words)
                    / real (length words);
                score = (if wordLengthVariance < 3 then score2 * 0.8 else score2)
            in \<lparr>sig_score = max 0 (min 1 score),
                sig_detail =
                  (if score < 0.4
                   then Some (''Vocabulary lacks specificity (''
                              @ showNat (mathRound (vagueDensity * 100)) @ ''% generic words)'')
                   else None)\<rparr>))"

text \<open>\<^verbatim>\<open>_detectTemplates\<close>: each template of the list found in the text counts once.\<close>

definition matchCount :: "string \<Rightarrow> nat" where
  "matchCount text = length (filter (includesStr text) fakeReviewTemplates)"

definition detectTemplates :: "string \<Rightarrow> signalOutput" where
  "detectTemplates text =
     \<lparr>sig_score = max 0 (1 - real (matchCount text) * 0.3),
      sig_detail =
        (if matchCount text > 0
         then Some (''Matched '' @ showNat (matchCount text)
                    @ '' common fake review template phrase''
                    @ (if matchCount text > 1 then ''s'' else ''''))
         else None)\<rparr>"

record textSignals =
  aiDetection :: "signalOutput option"
  repetitionPattern :: "signalOutput option"
  sentimentConsistency :: "signalOutput option"
  vocabularyDistribution :: "signalOutput option"
  templateMatching :: "signalOutput option"

text \<open>\<^verbatim>\<open>analyze\<close> of \<^verbatim>\<open>TextAnalyzer\<close>.\<close>

definition analyze :: "string \<Rightarrow> textSignals" where
  "analyze text =
     (if text = [] \<or> length text < 20
      then \<lparr>aiDetection = None, repetitionPattern = None, sentimentConsistency = None,
            vocabularyDistribution = None, templateMatching = None\<rparr>
      else
        (let normalized = trim (toLowerCase text)
         in \<lparr>aiDetection = Some (detectAIPatterns normalized),
             repetitionPattern = Some (analyzeRepetition normalized),
             sentimentConsistency = Some (analyzeSentiment normalized),
             vocabularyDistribution = Some (analyzeVocabulary normalized),
             templateMatching = Some (detectTemplates normalized)\<rparr>))"

text \<open>Texts used below.\<close>

definition shortReview :: string where
  "shortReview = ''Works as expected. Charges my phone. Cable is a good length.''"

definition fourTemplates :: string where
  "fourTemplates =
     ''exactly as described, worth every penny, must have product, exceeded my expectations''"

definition repeatedTemplate :: string where
  "repeatedTemplate =
     ''worth every penny worth every penny worth every penny worth every penny''"

text \<open>
  The other way to count template matches: every occurrence of every template, as the
  phrase counter of \<^verbatim>\<open>_detectAIPatterns\<close> counts.
\<close>

definition templateOccurrences :: "string \<Rightarrow> nat" where
  "templateOccurrences text = sum_list (map (countOccurrences 0 text) fakeReviewTemplates)"

text \<open>A detector output whose score lies between 0 and 1.\<close>

definition unitScore :: "signalOutput \<Rightarrow> bool" where
  "unitScore out = (0 \<le> sig_score out \<and> sig_score out \<le> 1)"

subsection \<open>BatchTextAnalyzer\<close>











section \<open>Properties of the score aggregator\<close>

subsection \<open>The loops in closed form\<close>

lemma addWeighted_NonNumeric [simp]: "addWeighted NonNumeric x w = NonNumeric"
  by simp

lemma scoreSignals_closed:
  "scoreSignals c rd acc g =
     \<lparr>acc_totals =
        (case acc_totals acc of
           NonNumeric \<Rightarrow> NonNumeric
         | Numeric s w \<Rightarrow>
             if exoticWeight rd g then NonNumeric
             else Numeric (s + scoreTotal rd g) (w + weightTotal rd g)),
      acc_signalCount = acc_signalCount acc + nonNullCount g,
      acc_issues = acc_issues acc @ issuesOf c g\<rparr>"
proof (induction g arbitrary: acc)
  case Nil
  show ?case
    by (simp add: scoreTotal_def weightTotal_def nonNullCount_def issuesOf_def exoticWeight_def
        split: totals.splits)
next
  case (Cons e es)
  show ?case
  proof (cases "acc_totals acc")
    case NonNumeric
    then show ?thesis
      by (cases "normalizedValue (snd e)")
        (simp_all add: Cons.IH accumulate_def nonNullCount_def issuesOf_def contributes_def)
  next
    case (Numeric s w)
    show ?thesis
    proof (cases "normalizedValue (snd e)")
      case None
      then show ?thesis
        using Numeric
        by (simp add: Cons.IH scoreTotal_def weightTotal_def nonNullCount_def issuesOf_def
            exoticWeight_def contributes_def)
    next
      case (Some x)
      then show ?thesis
        using Numeric
        by (cases "rd (fst e)")
          (simp_all add: Cons.IH accumulate_def scoreTotal_def weightTotal_def nonNullCount_def
            issuesOf_def exoticWeight_def contributes_def algebra_simps)
    qed
  qed
qed

lemma finish_scoreSignals:
  "finish (scoreSignals c rd emptyAcc g) =
     \<lparr>cat_score =
        (if \<not> exoticWeight rd g \<and> weightTotal rd g > 0 then scoreTotal rd g / weightTotal rd g
         else 0.5),
      cat_signalCount = nonNullCount g,
      cat_issues = issuesOf c g\<rparr>"
  by (simp add: finish_def scoreSignals_closed emptyAcc_def)

lemma scoreCatgory_closed:
  "scoreCatgory c g t =
     \<lparr>cat_score =
        (if \<not> exoticWeight (plainRead t) g \<and> weightTotal (plainRead t) g > 0
         then scoreTotal (plainRead t) g / weightTotal (plainRead t) g
         else 0.5),
      cat_signalCount = nonNullCount g,
      cat_issues = issuesOf c g\<rparr>"
  by (simp add: scoreCatgory_def finish_scoreSignals)

lemma scoreSignalsOn_closed:
  "scoreSignalsOn c rd acc g =
     (if readsThrow rd g then Inl TypeError
      else Inr (scoreSignals c (\<lambda>k. valueRead (rd k)) acc g))"
proof (induction g arbitrary: acc)
  case Nil
  show ?case by (simp add: readsThrow_def)
next
  case (Cons e es)
  show ?case
  proof (cases "snd e = SigNull \<or> snd e = SigUndefined")
    case True
    then show ?thesis
      using Cons.IH [of acc] by (auto simp: readsThrow_def)
  next
    case False
    show ?thesis
    proof (cases "rd (fst e)")
      case Throws
      then show ?thesis using False by (simp add: readsThrow_def)
    next
      case (Value w)
      then show ?thesis
        using False Cons.IH
        by (cases "normalizedValue (snd e)") (simp_all add: readsThrow_def)
    qed
  qed
qed

lemma scoreCatgoryOn_closed:
  "scoreCatgoryOn c g rd =
     (if readsThrow rd g then Inl TypeError
      else Inr (finish (scoreSignals c (\<lambda>k. valueRead (rd k)) emptyAcc g)))"
  by (simp add: scoreCatgoryOn_def scoreSignalsOn_closed)

lemma readsThrow_own: "\<not> readsThrow (readWeight h (OwnTable t)) g"
  by (simp add: readsThrow_def list_ex_iff)

lemma scoreCatgoryOn_own:
  "scoreCatgoryOn c g (readWeight h (OwnTable t)) = Inr (scoreCatgory c g t)"
  by (simp add: scoreCatgoryOn_closed readsThrow_own scoreCatgory_def)

text \<open>The category result an entry of the bundle gets when no read throws.\<close>

lemma scoreEntry_closed:
  "scoreEntry h acc e =
     (case weightsOf (fst e) of
        None \<Rightarrow> Inr acc
      | Some table \<Rightarrow>
          if readsThrow (readWeight h table) (snd e) then Inl TypeError
          else if nonNullCount (snd e) > 0
          then Inr \<lparr>categoryScores =
                      assignProperty (categoryScores acc) (fst e)
                        (finish (scoreSignals (fst e) (\<lambda>k. valueRead (readWeight h table k))
                                   emptyAcc (snd e))),
                    flaggedIssues = flaggedIssues acc @ issuesOf (fst e) (snd e),
                    totalSignals = totalSignals acc + nonNullCount (snd e)\<rparr>
          else Inr acc)"
  by (simp add: scoreEntry_def scoreCatgoryOn_closed finish_scoreSignals split: option.splits)

lemma scoreEntry_own:
  "map_of weights c = Some t \<Longrightarrow>
   scoreEntry h acc (c, g) =
     Inr (if nonNullCount g > 0
          then \<lparr>categoryScores = assign (categoryScores acc) c (scoreCatgory c g t),
                flaggedIssues = flaggedIssues acc @ issuesOf c g,
                totalSignals = totalSignals acc + nonNullCount g\<rparr>
          else acc)"
  by (auto simp: scoreEntry_closed weightsOf_def readsThrow_own scoreCatgory_def
      assignProperty_def weights_def split: if_splits)

lemma scoreEntry_throws: "scoreEntry h acc e = Inl err \<longleftrightarrow> err = TypeError \<and> entryThrows h e"
  by (auto simp: scoreEntry_closed entryThrows_def split: option.splits)

lemma scoreEntry_returns: "\<not> entryThrows h e \<Longrightarrow> \<exists>acc'. scoreEntry h acc e = Inr acc'"
  by (cases "scoreEntry h acc e") (simp_all add: scoreEntry_throws)

lemma scoreEntries_throws:
  "scoreEntries h acc b = Inl err \<longleftrightarrow> err = TypeError \<and> list_ex (entryThrows h) b"
proof (induction b arbitrary: acc)
  case Nil
  show ?case by simp
next
  case (Cons e es)
  show ?case
  proof (cases "scoreEntry h acc e")
    case (Inl err')
    then show ?thesis using scoreEntry_throws [of h acc e err'] by auto
  next
    case (Inr acc')
    then have "\<not> entryThrows h e"
      using scoreEntry_throws [of h acc e TypeError] by auto
    then show ?thesis using Inr Cons.IH [of acc'] by simp
  qed
qed

lemma computeScore_throws:
  "computeScore h cfg b = Inl err \<longleftrightarrow> err = TypeError \<and> list_ex (entryThrows h) b"
proof -
  have "computeScore h cfg b = Inl err \<longleftrightarrow> scoreEntries h emptyScores b = Inl err"
    by (cases "scoreEntries h emptyScores b") (simp_all add: computeScore_def Let_def)
  then show ?thesis by (simp add: scoreEntries_throws)
qed

lemma computeScore_returns:
  "\<not> list_ex (entryThrows h) b \<Longrightarrow> \<exists>r. computeScore h cfg b = Inr r"
  by (cases "computeScore h cfg b") (simp_all add: computeScore_throws)

lemma totalSignals_scoreEntry:
  "scoreEntry h acc e = Inr acc' \<Longrightarrow>
   totalSignals acc' =
     totalSignals acc
       + (case weightsOf (fst e) of None \<Rightarrow> 0 | Some table \<Rightarrow> nonNullCount (snd e))"
  by (auto simp: scoreEntry_closed split: option.splits if_splits)

lemma totalSignals_scoreEntries:
  "scoreEntries h acc b = Inr acc' \<Longrightarrow> totalSignals acc' = totalSignals acc + nonNullSignals b"
proof (induction b arbitrary: acc)
  case Nil
  then show ?case by simp
next
  case (Cons e es)
  from Cons.prems obtain a where a: "scoreEntry h acc e = Inr a"
    and rest: "scoreEntries h a es = Inr acc'"
    by (auto split: sum.splits)
  show ?case
    using Cons.IH [OF rest] totalSignals_scoreEntry [OF a] by simp
qed

lemma getTrustLevel_sufficient: "getTrustLevel s \<noteq> INSUFFICIENT_DATA"
  by (simp add: getTrustLevel_def)

text \<open>
  Whenever \<^verbatim>\<open>computeScore\<close> returns, the level is \<^verbatim>\<open>INSUFFICIENT_DATA\<close> exactly when
  the signals it counted are fewer than \<^verbatim>\<open>minSignalsRequired\<close>; it counts the non-null
  signals of every category that passes the test \<^verbatim>\<open>this.weights[category]\<close>.
\<close>

lemma computeScore_insufficient:
  assumes "computeScore h cfg b = Inr r"
  shows "(res_level r = INSUFFICIENT_DATA \<longleftrightarrow> real (nonNullSignals b) < minSignalsRequired cfg)
    \<and> res_signalCount r = nonNullSignals b
    \<and> (real (nonNullSignals b) < minSignalsRequired cfg \<longrightarrow>
         res_score r = None \<and> res_confidence r = 0 \<and> res_issues r = [])"
proof -
  from assms obtain acc where acc: "scoreEntries h emptyScores b = Inr acc"
    by (auto simp: computeScore_def split: sum.splits)
  have n: "totalSignals acc = nonNullSignals b"
    using totalSignals_scoreEntries [OF acc] by (simp add: emptyScores_def)
  show ?thesis
    using assms
    by (auto simp: computeScore_def acc n Let_def getTrustLevel_sufficient split: if_splits)
qed

lemma numericWeight_nonneg: "map_of weights c = Some t \<Longrightarrow> 0 \<le> numericWeight (plainRead t k)"
  by (auto simp: weights_def plainRead_def textWeights_def accountWeights_def
      behavioralWeights_def mediaWeights_def split: if_splits option.splits)

lemma weightTotal_replace:
  "contributes (k, v) \<Longrightarrow> contributes (k, v') \<Longrightarrow>
   weightTotal rd (xs @ (k, v') # ys) = weightTotal rd (xs @ (k, v) # ys)"
  by (simp add: weightTotal_def)

lemma exoticWeight_replace:
  "contributes (k, v) \<Longrightarrow> contributes (k, v') \<Longrightarrow>
   exoticWeight rd (xs @ (k, v') # ys) = exoticWeight rd (xs @ (k, v) # ys)"
  by (simp add: exoticWeight_def)

lemma scoreTotal_replace:
  "normalizedValue v = Some s \<Longrightarrow> normalizedValue v' = Some s' \<Longrightarrow>
   scoreTotal rd (xs @ (k, v') # ys) =
     scoreTotal rd (xs @ (k, v) # ys) + (s' - s) * numericWeight (rd k)"
  by (simp add: scoreTotal_def contributes_def algebra_simps)

lemma nonNullCount_replace:
  "contributes (k, v) \<Longrightarrow> contributes (k, v') \<Longrightarrow>
   nonNullCount (xs @ (k, v') # ys) = nonNullCount (xs @ (k, v) # ys)"
  by (simp add: nonNullCount_def)

subsection \<open>Monotonicity of a category's score\<close>

text \<open>
  Claim C8. In every scored category, with all other signals fixed, lowering the score
  of one non-null signal (from \<open>s\<close> to \<open>s'\<close>, \<open>s' \<le> s\<close>) does not raise the score
  \<^verbatim>\<open>_scoreCatgory\<close> computes for the category.
\<close>

theorem C8_category_score_monotone:
  assumes t: "map_of weights c = Some t"
    and v: "normalizedValue v = Some s"
    and v': "normalizedValue v' = Some s'"
    and le: "s' \<le> s"
  shows "cat_score (scoreCatgory c (xs @ (k, v') # ys) t)
           \<le> cat_score (scoreCatgory c (xs @ (k, v) # ys) t)"
proof -
  have cv: "contributes (k, v)" and cv': "contributes (k, v')"
    using v v' by (simp_all add: contributes_def)
  have w: "weightTotal (plainRead t) (xs @ (k, v') # ys)
      = weightTotal (plainRead t) (xs @ (k, v) # ys)"
    by (rule weightTotal_replace [OF cv cv'])
  have x: "exoticWeight (plainRead t) (xs @ (k, v') # ys)
      = exoticWeight (plainRead t) (xs @ (k, v) # ys)"
    by (rule exoticWeight_replace [OF cv cv'])
  have "(s' - s) * numericWeight (plainRead t k) \<le> 0"
    using le numericWeight_nonneg [OF t, of k] by (simp add: mult_le_0_iff)
  then have s: "scoreTotal (plainRead t) (xs @ (k, v') # ys)
      \<le> scoreTotal (plainRead t) (xs @ (k, v) # ys)"
    using scoreTotal_replace [OF v v', of "plainRead t" xs k ys] by simp
  show ?thesis
    using s by (simp add: scoreCatgory_closed w x divide_right_mono)
qed

text \<open>Lowering \<^verbatim>\<open>aiDetection\<close> from 0.8 to 0.2 beside a \<^verbatim>\<open>templateMatching\<close> of 0.9.\<close>

theorem C8_category_score_monotone_witness:
  "cat_score (scoreCatgory ''text''
      [(''aiDetection'', SigNumber 0.2), (''templateMatching'', SigNumber 0.9)] textWeights)
    \<le> cat_score (scoreCatgory ''text''
      [(''aiDetection'', SigNumber 0.8), (''templateMatching'', SigNumber 0.9)] textWeights)
   \<and> cat_score (scoreCatgory ''text''
      [(''aiDetection'', SigNumber 0.2), (''templateMatching'', SigNumber 0.9)] textWeights)
       = 0.55"
proof -
  have t: "map_of weights ''text'' = Some textWeights" by (simp add: weights_def)
  have a: "normalizedValue (SigNumber 0.8) = Some 0.8" by simp
  have b: "normalizedValue (SigNumber 0.2) = Some 0.2" by simp
  have le: "(0.2::real) \<le> 0.8" by simp
  have "cat_score (scoreCatgory ''text''
      [(''aiDetection'', SigNumber 0.2), (''templateMatching'', SigNumber 0.9)] textWeights)
       = 0.55"
    by (simp add: scoreCatgory_def finish_def emptyAcc_def accumulate_def plainRead_def
        textWeights_def)
  then show ?thesis
    using C8_category_score_monotone [OF t a b le, of "[]" "''aiDetection''"
        "[(''templateMatching'', SigNumber 0.9)]"]
    by simp
qed

subsection \<open>Insufficient data\<close>

text \<open>
  Claim C1 holds of every result \<^verbatim>\<open>computeScore\<close> returns when the count is the one
  the loop makes (lemma \<open>computeScore_insufficient\<close>), but the loop also scores
  categories the weight table does not have: the test \<^verbatim>\<open>!this.weights[category]\<close>
  lets through every name a plain object inherits. Under \<^verbatim>\<open>constructor\<close> the weights
  are read from the function \<^verbatim>\<open>Object\<close>: where that read throws, as it does for the
  name \<^verbatim>\<open>caller\<close>, \<^verbatim>\<open>computeScore\<close> throws instead of returning
  \<^verbatim>\<open>INSUFFICIENT_DATA\<close> for a single signal; where it finds nothing, three signals of a
  category that is in no table are counted and scored \<^verbatim>\<open>MODERATE_TRUST\<close>.
\<close>

theorem C1_inherited_category_scored:
  "map_of weights ''constructor'' = None
   \<and> (h ''constructor'' ''caller'' = Throws \<longrightarrow>
        computeScore h defaultConfig [(''constructor'', [(''caller'', SigNumber 0.1)])]
          = Inl TypeError)
   \<and> (h ''constructor'' ''foo'' = Value Absent \<and> h ''constructor'' ''bar'' = Value Absent
        \<and> h ''constructor'' ''baz'' = Value Absent \<longrightarrow>
        map_sum id res_level (computeScore h defaultConfig [(''constructor'', unweightedOnly)])
          = Inr MODERATE_TRUST
        \<and> map_sum id res_score (computeScore h defaultConfig [(''constructor'', unweightedOnly)])
          = Inr (Some 0.5)
        \<and> map_sum id res_signalCount
            (computeScore h defaultConfig [(''constructor'', unweightedOnly)]) = Inr 3
        \<and> map_sum id (\<lambda>r. length (res_issues r))
            (computeScore h defaultConfig [(''constructor'', unweightedOnly)]) = Inr 3)"
proof (intro conjI impI)
  show "map_of weights ''constructor'' = None"
    by (simp add: weights_def)
  have w: "weightsOf ''constructor'' = Some (InheritedObject ''constructor'')"
    by (simp add: weightsOf_def weights_def objectPrototype_def)
  {
    assume "h ''constructor'' ''caller'' = Throws"
    then have "entryThrows h (''constructor'', [(''caller'', SigNumber 0.1)])"
      by (simp add: entryThrows_def w readsThrow_def)
    then show "computeScore h defaultConfig [(''constructor'', [(''caller'', SigNumber 0.1)])]
          = Inl TypeError"
      by (simp add: computeScore_throws)
  }
  assume a: "h ''constructor'' ''foo'' = Value Absent \<and> h ''constructor'' ''bar'' = Value Absent
        \<and> h ''constructor'' ''baz'' = Value Absent"
  have rt: "\<not> readsThrow (readWeight h (InheritedObject ''constructor'')) unweightedOnly"
    using a by (simp add: readsThrow_def unweightedOnly_def)
  have n: "nonNullCount unweightedOnly = 3"
    by (simp add: nonNullCount_def unweightedOnly_def contributes_def)
  have x: "\<not> exoticWeight (\<lambda>k. valueRead (readWeight h (InheritedObject ''constructor'') k))
              unweightedOnly"
    using a by (simp add: exoticWeight_def unweightedOnly_def)
  have wt: "weightTotal (\<lambda>k. valueRead (readWeight h (InheritedObject ''constructor'') k))
              unweightedOnly = 0"
    using a by (simp add: weightTotal_def unweightedOnly_def contributes_def)
  have e: "scoreEntries h emptyScores [(''constructor'', unweightedOnly)] =
      Inr \<lparr>categoryScores =
             [(''constructor'',
               \<lparr>cat_score = 1 / 2, cat_signalCount = 3,
                cat_issues = issuesOf ''constructor'' unweightedOnly\<rparr>)],
           flaggedIssues = issuesOf ''constructor'' unweightedOnly, totalSignals = 3\<rparr>"
    using rt x wt
    by (simp add: scoreEntry_closed w finish_scoreSignals n emptyScores_def
        assignProperty_def)
  have f: "finalScoreOf [(''constructor'',
               \<lparr>cat_score = 1 / 2, cat_signalCount = 3,
                cat_issues = issuesOf ''constructor'' unweightedOnly\<rparr>)] = 1 / 2"
    by (simp add: finalScoreOf_def plainRead_def categoryWeights_def objectPrototype_def)
  have l: "length (issuesOf ''constructor'' unweightedOnly) = 3"
    by (simp add: issuesOf_def unweightedOnly_def contributes_def)
  have r: "computeScore h defaultConfig [(''constructor'', unweightedOnly)] =
      Inr \<lparr>res_score = Some (1 / 2), res_level = MODERATE_TRUST,
           res_confidence = min 1 (3 / 10) * 0.85,
           res_message =
             generateMessage MODERATE_TRUST (issuesOf ''constructor'' unweightedOnly)
               (min 1 (3 / 10) * 0.85),
           res_details =
             [(''constructor'',
               \<lparr>cat_score = 1 / 2, cat_signalCount = 3,
                cat_issues = issuesOf ''constructor'' unweightedOnly\<rparr>)],
           res_issues = issuesOf ''constructor'' unweightedOnly, res_signalCount = 3\<rparr>"
    unfolding computeScore_def e
    by (simp add: f Let_def defaultConfig_def getTrustLevel_def threshold_HIGH_TRUST_def
        threshold_MODERATE_TRUST_def)
  show "map_sum id res_level (computeScore h defaultConfig [(''constructor'', unweightedOnly)])
          = Inr MODERATE_TRUST"
    by (simp add: r)
  show "map_sum id res_score (computeScore h defaultConfig [(''constructor'', unweightedOnly)])
          = Inr (Some 0.5)"
    by (simp add: r)
  show "map_sum id res_signalCount
            (computeScore h defaultConfig [(''constructor'', unweightedOnly)]) = Inr 3"
    by (simp add: r)
  show "map_sum id (\<lambda>r. length (res_issues r))
            (computeScore h defaultConfig [(''constructor'', unweightedOnly)]) = Inr 3"
    by (simp add: r l)
qed

text \<open>The two bundles in the sample host.\<close>

theorem C1_inherited_category_scored_witness:
  "sampleHost ''constructor'' ''caller'' = Throws
   \<and> computeScore sampleHost defaultConfig
        [(''constructor'', [(''caller'', SigNumber 0.1)])] = Inl TypeError
   \<and> map_sum id res_level
        (computeScore sampleHost defaultConfig
           [(''constructor'', unweightedOnly)]) = Inr MODERATE_TRUST
   \<and> map_sum id res_signalCount
        (computeScore sampleHost defaultConfig
           [(''constructor'', unweightedOnly)]) = Inr 3"
  using C1_inherited_category_scored
    [of sampleHost]
  by (simp add: sampleHost_def)

subsection \<open>A single category, and the confidence formula\<close>

lemma scoreTotal_uniform:
  "\<forall>e\<in>set g. contributes e \<longrightarrow> normalizedValue (snd e) = Some x \<Longrightarrow>
   scoreTotal rd g = x * weightTotal rd g"
  by (induction g) (auto simp: scoreTotal_def weightTotal_def algebra_simps)

lemma weightTotal_nonneg:
  "\<forall>e\<in>set g. contributes e \<longrightarrow> 0 \<le> numericWeight (rd (fst e)) \<Longrightarrow> 0 \<le> weightTotal rd g"
  by (induction g) (auto simp: weightTotal_def)

lemma weightTotal_pos:
  "\<forall>e\<in>set g. contributes e \<longrightarrow> 0 < numericWeight (rd (fst e)) \<Longrightarrow> 0 < nonNullCount g \<Longrightarrow>
   0 < weightTotal rd g"
proof (induction g)
  case Nil
  then show ?case by (simp add: nonNullCount_def)
next
  case (Cons e es)
  have nn: "0 \<le> weightTotal rd es"
    by (rule weightTotal_nonneg) (use Cons.prems in \<open>auto simp: less_imp_le\<close>)
  show ?case
  proof (cases "contributes e")
    case True
    then have "0 < numericWeight (rd (fst e))" using Cons.prems by simp
    then show ?thesis using nn True by (simp add: weightTotal_def)
  next
    case False
    then show ?thesis using Cons by (simp add: weightTotal_def nonNullCount_def)
  qed
qed

lemma textWeights_pos:
  "k \<in> set (map fst textWeights) \<Longrightarrow>
   0 < numericWeight (plainRead textWeights k) \<and> plainRead textWeights k \<noteq> Exotic"
  by (auto simp: textWeights_def plainRead_def)

lemma exoticWeight_none:
  "\<forall>e\<in>set g. contributes e \<longrightarrow> rd (fst e) \<noteq> Exotic \<Longrightarrow> \<not> exoticWeight rd g"
  by (auto simp: exoticWeight_def list_ex_iff)

lemma computeScore_sufficient:
  assumes "computeScore h cfg b = Inr r"
    and "minSignalsRequired cfg \<le> real (nonNullSignals b)"
  shows "res_confidence r = min 1 (real (nonNullSignals b) / 10) * confidenceDecay cfg
    \<and> res_score r = Some (finalScoreOf (res_details r))
    \<and> res_level r = getTrustLevel (finalScoreOf (res_details r))"
proof -
  from assms(1) obtain acc where acc: "scoreEntries h emptyScores b = Inr acc"
    by (auto simp: computeScore_def split: sum.splits)
  have n: "totalSignals acc = nonNullSignals b"
    using totalSignals_scoreEntries [OF acc] by (simp add: emptyScores_def)
  show ?thesis
    using assms
    by (auto simp: computeScore_def acc n Let_def split: if_splits)
qed

lemma finalScoreOf_single:
  "0 < categoryWeight c \<Longrightarrow> finalScoreOf [(c, r)] = cat_score r"
  by (cases "plainRead categoryWeights c") (simp_all add: finalScoreOf_def categoryWeight_def)

lemma computeScore_single:
  assumes "map_of weights c = Some t" and "0 < nonNullCount g"
    and "minSignalsRequired cfg \<le> real (nonNullCount g)"
    and "0 < categoryWeight c"
  shows "computeScore h cfg [(c, g)] =
     Inr \<lparr>res_score = Some (cat_score (scoreCatgory c g t)),
      res_level = getTrustLevel (cat_score (scoreCatgory c g t)),
      res_confidence = min 1 (real (nonNullCount g) / 10) * confidenceDecay cfg,
      res_message =
        generateMessage (getTrustLevel (cat_score (scoreCatgory c g t))) (issuesOf c g)
          (min 1 (real (nonNullCount g) / 10) * confidenceDecay cfg),
      res_details = [(c, scoreCatgory c g t)],
      res_issues = issuesOf c g,
      res_signalCount = nonNullCount g\<rparr>"
  using assms
  by (simp add: computeScore_def scoreEntry_own Let_def emptyScores_def finalScoreOf_single)

text \<open>
  Claim C4 does not hold of every five signals scoring 0.9: under names the text weight
  table does not have, they weigh nothing, the category falls back to 0.5 and the level
  is \<^verbatim>\<open>MODERATE_TRUST\<close>. Nor is the confidence given by the formula in general: two
  signals are below the minimum of 3, and the confidence is 0 where the formula gives
  0.17.
\<close>

theorem C4_unweighted_signals_counterexample:
  "nonNullCount fiveUnknown = 5
   \<and> map (normalizedValue \<circ> snd) fiveUnknown
       = [Some 0.9, Some 0.9, Some 0.9, Some 0.9, Some 0.9]
   \<and> map_sum id res_score
        (computeScore sampleHost defaultConfig [(''text'', fiveUnknown)])
       = Inr (Some 0.5)
   \<and> map_sum id res_level
        (computeScore sampleHost defaultConfig [(''text'', fiveUnknown)])
       = Inr MODERATE_TRUST
   \<and> map_sum id res_signalCount
        (computeScore sampleHost defaultConfig [(''text'', take 2 scenarioC)])
       = Inr 2
   \<and> map_sum id res_confidence
        (computeScore sampleHost defaultConfig [(''text'', take 2 scenarioC)])
       = Inr 0
   \<and> min 1 (2 / 10) * confidenceDecay defaultConfig = 0.17"
proof -
  have t: "map_of weights ''text'' = Some textWeights" by (simp add: weights_def)
  have n: "nonNullCount fiveUnknown = 5"
    by (simp add: fiveUnknown_def nonNullCount_def contributes_def)
  have cw: "0 < categoryWeight ''text''"
    by (simp add: categoryWeight_def plainRead_def categoryWeights_def)
  have cs: "cat_score (scoreCatgory ''text'' fiveUnknown textWeights) = 1 / 2"
    by (simp add: scoreCatgory_closed weightTotal_def fiveUnknown_def contributes_def
        plainRead_def textWeights_def objectPrototype_def)
  have r: "computeScore sampleHost defaultConfig [(''text'', fiveUnknown)] =
     Inr \<lparr>res_score = Some (cat_score (scoreCatgory ''text'' fiveUnknown textWeights)),
      res_level = getTrustLevel (cat_score (scoreCatgory ''text'' fiveUnknown textWeights)),
      res_confidence = min 1 (real (nonNullCount fiveUnknown) / 10)
        * confidenceDecay defaultConfig,
      res_message =
        generateMessage (getTrustLevel (cat_score (scoreCatgory ''text'' fiveUnknown textWeights)))
          (issuesOf ''text'' fiveUnknown)
          (min 1 (real (nonNullCount fiveUnknown) / 10) * confidenceDecay defaultConfig),
      res_details = [(''text'', scoreCatgory ''text'' fiveUnknown textWeights)],
      res_issues = issuesOf ''text'' fiveUnknown,
      res_signalCount = nonNullCount fiveUnknown\<rparr>"
    by (rule computeScore_single [OF t _ _ cw]) (simp_all add: n defaultConfig_def)
  have n2: "nonNullCount (take 2 scenarioC) = 2"
    by (simp add: scenarioC_def nonNullCount_def contributes_def)
  have e2: "scoreEntries sampleHost emptyScores [(''text'', take 2 scenarioC)] =
      Inr \<lparr>categoryScores = [(''text'', scoreCatgory ''text'' (take 2 scenarioC) textWeights)],
           flaggedIssues = issuesOf ''text'' (take 2 scenarioC), totalSignals = 2\<rparr>"
    by (simp add: scoreEntry_own [OF t] n2 emptyScores_def)
  have r2: "computeScore sampleHost defaultConfig [(''text'', take 2 scenarioC)] =
      Inr \<lparr>res_score = None, res_level = INSUFFICIENT_DATA, res_confidence = 0,
           res_message = ''Not enough data to assess authenticity'',
           res_details = [(''text'', scoreCatgory ''text'' (take 2 scenarioC) textWeights)],
           res_issues = [], res_signalCount = 2\<rparr>"
    unfolding computeScore_def e2 by (simp add: defaultConfig_def)
  have m: "map (normalizedValue \<circ> snd) fiveUnknown
       = [Some 0.9, Some 0.9, Some 0.9, Some 0.9, Some 0.9]"
    by (simp add: fiveUnknown_def)
  show ?thesis
    unfolding r r2
    by (simp add: n m cs getTrustLevel_def threshold_HIGH_TRUST_def threshold_MODERATE_TRUST_def
        defaultConfig_def)
qed

text \<open>
  Claim C4, amended. A bundle whose only category is text, with exactly five non-null
  signals, all of them signals of the text weight table and all scoring 0.9, has category
  score 0.9, level \<^verbatim>\<open>HIGH_TRUST\<close>, five signals and confidence
  \<open>min 1 (5 / 10) * 0.85 = 0.425\<close> under the default configuration; its overall
  score is 0.9 in exact arithmetic, which the statement gives up to \<open>10\<^sup>-\<^sup>1\<^sup>5\<close> because
  the source, dividing \<open>0.9 * 0.3\<close> by \<open>0.3\<close> in doubles, returns
  0.9000000000000001. In general, whenever \<^verbatim>\<open>computeScore\<close> returns, the confidence is
  \<open>min 1 (totalSignals / 10) * confidenceDecay\<close> if the minimum number of signals is
  reached and 0 otherwise.
\<close>

theorem C4_five_text_signals:
  "((\<forall>e\<in>set g. contributes e \<longrightarrow>
        fst e \<in> set (map fst textWeights) \<and> normalizedValue (snd e) = Some 0.9)
     \<and> nonNullCount g = 5 \<longrightarrow>
      (\<exists>r s. computeScore h defaultConfig [(''text'', g)] = Inr r
        \<and> map (\<lambda>(k, c). (k, cat_score c)) (res_details r) = [(''text'', 0.9)]
        \<and> res_score r = Some s \<and> \<bar>s - 0.9\<bar> \<le> 1 / 10 ^ 15
        \<and> res_level r = HIGH_TRUST
        \<and> res_confidence r = min 1 (5 / 10) * 0.85
        \<and> res_confidence r = 0.425
        \<and> res_signalCount r = 5))
   \<and> (\<forall>r. computeScore h cfg b = Inr r \<longrightarrow>
        res_signalCount r = nonNullSignals b
        \<and> res_confidence r
            = (if real (res_signalCount r) < minSignalsRequired cfg then 0
               else min 1 (real (res_signalCount r) / 10) * confidenceDecay cfg))"
proof (intro conjI impI allI)
  assume a: "(\<forall>e\<in>set g. contributes e \<longrightarrow>
        fst e \<in> set (map fst textWeights) \<and> normalizedValue (snd e) = Some 0.9)
     \<and> nonNullCount g = 5"
  have t: "map_of weights ''text'' = Some textWeights" by (simp add: weights_def)
  have n: "0 < nonNullCount g" using a by simp
  have m: "minSignalsRequired defaultConfig \<le> real (nonNullCount g)"
    using a by (simp add: defaultConfig_def)
  have cw: "0 < categoryWeight ''text''"
    by (simp add: categoryWeight_def plainRead_def categoryWeights_def)
  have wpos: "0 < weightTotal (plainRead textWeights) g"
    by (rule weightTotal_pos) (use a textWeights_pos n in auto)
  have ne: "\<not> exoticWeight (plainRead textWeights) g"
    by (rule exoticWeight_none) (use a textWeights_pos in auto)
  have st: "scoreTotal (plainRead textWeights) g = 0.9 * weightTotal (plainRead textWeights) g"
    by (rule scoreTotal_uniform) (use a in auto)
  have cs: "cat_score (scoreCatgory ''text'' g textWeights) = 0.9"
    using wpos st ne by (simp add: scoreCatgory_closed)
  note r = computeScore_single [OF t n m cw, of h]
  have c: "min 1 (real (nonNullCount g) / 10) * confidenceDecay defaultConfig = 0.425"
    using a by (simp add: defaultConfig_def)
  show "\<exists>r s. computeScore h defaultConfig [(''text'', g)] = Inr r
        \<and> map (\<lambda>(k, c). (k, cat_score c)) (res_details r) = [(''text'', 0.9)]
        \<and> res_score r = Some s \<and> \<bar>s - 0.9\<bar> \<le> 1 / 10 ^ 15
        \<and> res_level r = HIGH_TRUST
        \<and> res_confidence r = min 1 (5 / 10) * 0.85
        \<and> res_confidence r = 0.425
        \<and> res_signalCount r = 5"
    unfolding r using a
    by (auto simp: cs c getTrustLevel_def threshold_HIGH_TRUST_def defaultConfig_def
        intro!: exI [of _ "9 / 10"])
next
  fix r
  assume r: "computeScore h cfg b = Inr r"
  show "res_signalCount r = nonNullSignals b"
    using computeScore_insufficient [OF r] by simp
  show "res_confidence r
            = (if real (res_signalCount r) < minSignalsRequired cfg then 0
               else min 1 (real (res_signalCount r) / 10) * confidenceDecay cfg)"
    using computeScore_insufficient [OF r] computeScore_sufficient [OF r]
    by (simp add: not_less)
qed

text \<open>The five text signals of scenario C.\<close>

theorem C4_five_text_signals_witness:
  "nonNullCount scenarioC = 5
   \<and> map_sum id res_level
        (computeScore sampleHost defaultConfig [(''text'', scenarioC)])
       = Inr HIGH_TRUST
   \<and> map_sum id res_confidence
        (computeScore sampleHost defaultConfig [(''text'', scenarioC)])
       = Inr 0.425
   \<and> map_sum id res_signalCount
        (computeScore sampleHost defaultConfig [(''text'', scenarioC)])
       = Inr 5
   \<and> map_sum id res_signalCount
        (computeScore sampleHost defaultConfig [(''text'', scenarioC)])
       = Inr (nonNullSignals [(''text'', scenarioC)])"
proof -
  have a: "\<forall>e\<in>set scenarioC. contributes e \<longrightarrow>
        fst e \<in> set (map fst textWeights) \<and> normalizedValue (snd e) = Some 0.9"
    by (simp add: scenarioC_def textWeights_def contributes_def)
  have n: "nonNullCount scenarioC = 5"
    by (simp add: scenarioC_def nonNullCount_def contributes_def)
  from a n C4_five_text_signals
    [of scenarioC sampleHost defaultConfig "[(''text'', scenarioC)]"]
  obtain r where r: "computeScore sampleHost defaultConfig [(''text'', scenarioC)]
      = Inr r"
    and l: "res_level r = HIGH_TRUST" and c: "res_confidence r = 0.425"
    and s: "res_signalCount r = 5"
    and g: "res_signalCount r = nonNullSignals [(''text'', scenarioC)]"
    by blast
  show ?thesis
    using n l c s g by (simp add: r)
qed

subsection \<open>Categories without contributing weight\<close>

lemma scoreEntries_append:
  "scoreEntries h acc (xs @ ys) =
     (case scoreEntries h acc xs of Inl err \<Rightarrow> Inl err | Inr acc' \<Rightarrow> scoreEntries h acc' ys)"
  by (induction xs arbitrary: acc) (simp_all split: sum.splits)

lemma weightsOf_plain:
  "c \<notin> set objectPrototype \<Longrightarrow>
   weightsOf c = (case map_of weights c of None \<Rightarrow> None | Some t \<Rightarrow> Some (OwnTable t))"
  by (simp add: weightsOf_def split: option.splits)

lemma scoreEntry_plain:
  "c \<notin> set objectPrototype \<Longrightarrow>
   scoreEntry h acc (c, g) =
     Inr (case map_of weights c of
            None \<Rightarrow> acc
          | Some t \<Rightarrow>
              if nonNullCount g > 0
              then \<lparr>categoryScores = assign (categoryScores acc) c (scoreCatgory c g t),
                    flaggedIssues = flaggedIssues acc @ issuesOf c g,
                    totalSignals = totalSignals acc + nonNullCount g\<rparr>
              else acc)"
proof (cases "map_of weights c")
  case None
  assume "c \<notin> set objectPrototype"
  then show ?thesis using None by (simp add: scoreEntry_closed weightsOf_plain)
next
  case (Some t)
  then show ?thesis by (simp add: scoreEntry_own)
qed

lemma scoreEntry_empty_category:
  "nonNullCount g = 0 \<Longrightarrow> c \<notin> set objectPrototype \<Longrightarrow> scoreEntry h acc (c, g) = Inr acc"
  by (simp add: scoreEntry_plain split: option.splits)

lemma weightTotal_weighted_only:
  "weightTotal (plainRead t) (filter (\<lambda>e. \<not> unweighted t e) g) = weightTotal (plainRead t) g"
  by (induction g) (auto simp: weightTotal_def unweighted_def)

lemma scoreTotal_weighted_only:
  "scoreTotal (plainRead t) (filter (\<lambda>e. \<not> unweighted t e) g) = scoreTotal (plainRead t) g"
  by (induction g) (auto simp: scoreTotal_def unweighted_def)

lemma exoticWeight_weighted_only:
  "exoticWeight (plainRead t) (filter (\<lambda>e. \<not> unweighted t e) g) = exoticWeight (plainRead t) g"
  by (induction g) (auto simp: exoticWeight_def unweighted_def)

lemma weightTotal_unweighted:
  "\<forall>e\<in>set g. contributes e \<longrightarrow> unweighted t e \<Longrightarrow> weightTotal (plainRead t) g = 0"
  by (induction g) (auto simp: weightTotal_def unweighted_def)

lemma assign_fresh: "k \<notin> fst ` set kvs \<Longrightarrow> assign kvs k v = kvs @ [(k, v)]"
  by (induction kvs) auto

lemma scoredCategories_Cons:
  "scoredCategories ((c, g) # es) =
     (case map_of weights c of
        None \<Rightarrow> []
      | Some t \<Rightarrow> if nonNullCount g > 0 then [(c, scoreCatgory c g t)] else [])
     @ scoredCategories es"
  by (simp add: scoredCategories_def)

lemma scoredCategories_keys: "fst ` set (scoredCategories b) \<subseteq> fst ` set b"
proof (induction b)
  case Nil
  show ?case by (simp add: scoredCategories_def)
next
  case (Cons e es)
  obtain c g where e: "e = (c, g)" by (cases e)
  show ?case
  proof (cases "map_of weights c")
    case None
    then show ?thesis using Cons.IH by (auto simp: e scoredCategories_Cons)
  next
    case (Some t)
    then show ?thesis using Cons.IH by (auto simp: e scoredCategories_Cons)
  qed
qed

lemma scoredCategories_own: "fst ` set (scoredCategories b) \<subseteq> fst ` set weights"
proof (induction b)
  case Nil
  show ?case by (simp add: scoredCategories_def)
next
  case (Cons e es)
  obtain c g where e: "e = (c, g)" by (cases e)
  show ?case
  proof (cases "map_of weights c")
    case None
    then show ?thesis using Cons.IH by (auto simp: e scoredCategories_Cons)
  next
    case (Some t)
    then have "(c, t) \<in> set weights" by (rule map_of_SomeD)
    then have "c \<in> fst ` set weights" by force
    then show ?thesis
      using Some Cons.IH by (cases "0 < nonNullCount g") (simp_all add: e scoredCategories_Cons)
  qed
qed

lemma scoredCategories_count:
  "\<forall>e\<in>set b. fst e \<notin> set objectPrototype \<Longrightarrow>
   (\<Sum>d\<leftarrow>scoredCategories b. cat_signalCount (snd d)) = nonNullSignals b"
proof (induction b)
  case Nil
  show ?case by (simp add: scoredCategories_def)
next
  case (Cons e es)
  obtain c g where e: "e = (c, g)" by (cases e)
  have p: "c \<notin> set objectPrototype" using Cons.prems by (simp add: e)
  have n: "cat_signalCount (scoreCatgory c g t) = nonNullCount g" for t
    by (simp add: scoreCatgory_closed)
  show ?case
  proof (cases "map_of weights c")
    case None
    then show ?thesis using Cons by (simp add: e scoredCategories_Cons weightsOf_plain [OF p])
  next
    case (Some t)
    then show ?thesis
      using Cons by (simp add: e scoredCategories_Cons weightsOf_plain [OF p] n)
  qed
qed

lemma categoryScores_scoreEntries:
  "scoreEntries h acc b = Inr acc' \<Longrightarrow> distinct (map fst (categoryScores acc) @ map fst b) \<Longrightarrow>
   \<forall>e\<in>set b. fst e \<notin> set objectPrototype \<Longrightarrow>
   categoryScores acc' = categoryScores acc @ scoredCategories b"
proof (induction b arbitrary: acc)
  case Nil
  then show ?case by (simp add: scoredCategories_def)
next
  case (Cons e es)
  obtain c g where e: "e = (c, g)" by (cases e)
  have p: "c \<notin> set objectPrototype" using Cons.prems(3) by (simp add: e)
  define a where "a = (case map_of weights c of
            None \<Rightarrow> acc
          | Some t \<Rightarrow>
              if nonNullCount g > 0
              then \<lparr>categoryScores = assign (categoryScores acc) c (scoreCatgory c g t),
                    flaggedIssues = flaggedIssues acc @ issuesOf c g,
                    totalSignals = totalSignals acc + nonNullCount g\<rparr>
              else acc)"
  have s: "scoreEntry h acc e = Inr a"
    by (simp add: e a_def scoreEntry_plain [OF p])
  have rest: "scoreEntries h a es = Inr acc'"
    using Cons.prems(1) by (simp add: s)
  have fresh: "c \<notin> fst ` set (categoryScores acc)"
    using Cons.prems(2) by (auto simp: e)
  have ca: "categoryScores a = categoryScores acc
      @ (case map_of weights c of
           None \<Rightarrow> []
         | Some t \<Rightarrow> if nonNullCount g > 0 then [(c, scoreCatgory c g t)] else [])"
    by (simp add: a_def assign_fresh [OF fresh] split: option.splits)
  have d: "distinct (map fst (categoryScores a) @ map fst es)"
    using Cons.prems(2) by (auto simp: ca e split: option.splits)
  have "categoryScores acc' = categoryScores a @ scoredCategories es"
    by (rule Cons.IH [OF rest d]) (use Cons.prems(3) in simp)
  then show ?case by (simp add: ca e scoredCategories_Cons)
qed

lemma res_details_computeScore:
  assumes "computeScore h cfg b = Inr r" and "distinct (map fst b)"
    and "\<forall>e\<in>set b. fst e \<notin> set objectPrototype"
  shows "res_details r = scoredCategories b"
proof -
  from assms(1) obtain acc where acc: "scoreEntries h emptyScores b = Inr acc"
    by (auto simp: computeScore_def split: sum.splits)
  have "categoryScores acc = categoryScores emptyScores @ scoredCategories b"
    by (rule categoryScores_scoreEntries [OF acc]) (use assms in \<open>simp_all add: emptyScores_def\<close>)
  then have c: "categoryScores acc = scoredCategories b" by (simp add: emptyScores_def)
  show ?thesis
    using assms(1) by (auto simp: computeScore_def acc c Let_def split: if_splits)
qed

lemma weightedSum_numeric:
  "\<forall>d\<in>set ds. plainRead categoryWeights (fst d) \<noteq> Exotic \<Longrightarrow>
   weightedSum (Numeric s w) ds =
     Numeric (s + (\<Sum>d\<leftarrow>ds. cat_score (snd d) * categoryWeight (fst d)))
       (w + (\<Sum>d\<leftarrow>ds. categoryWeight (fst d)))"
proof (induction ds arbitrary: s w)
  case Nil
  show ?case by simp
next
  case (Cons d ds)
  show ?case
  proof (cases "plainRead categoryWeights (fst d)")
    case Absent
    then show ?thesis using Cons by (simp add: categoryWeight_def)
  next
    case (NumberW y)
    then show ?thesis using Cons by (simp add: categoryWeight_def algebra_simps)
  next
    case Exotic
    then show ?thesis using Cons.prems by simp
  qed
qed

lemma plainRead_own_key:
  "k \<in> fst ` set weights \<Longrightarrow> plainRead categoryWeights k \<noteq> Exotic"
  by (auto simp: weights_def plainRead_def categoryWeights_def)

lemma finalScoreOf_scoredCategories:
  "finalScoreOf (scoredCategories b) = weightedAverage (scoredCategories b)"
proof -
  have "\<forall>d\<in>set (scoredCategories b). plainRead categoryWeights (fst d) \<noteq> Exotic"
    using scoredCategories_own [of b] plainRead_own_key by blast
  then show ?thesis
    by (simp add: finalScoreOf_def weightedSum_numeric weightedAverage_def)
qed

text \<open>
  Claim C2 fails for a category whose non-null signals all lack a weight. Three signals
  under unknown names in the text category carry total weight 0, yet they count 3 toward
  \<^verbatim>\<open>signalCount\<close> (lifting the bundle over the minimum of 3), raise three issues, and
  the category enters the final average with its fallback score 0.5: alone it yields
  \<^verbatim>\<open>MODERATE_TRUST\<close> with score 0.5, and beside an account category that alone is
  \<^verbatim>\<open>HIGH_TRUST\<close> it pulls the result down to \<^verbatim>\<open>MODERATE_TRUST\<close>.
\<close>

theorem C2_unweighted_counterexample:
  "weightTotal (plainRead textWeights) unweightedOnly = 0
   \<and> map_sum id res_signalCount
        (computeScore sampleHost defaultConfig [(''text'', unweightedOnly)]) = Inr 3
   \<and> map_sum id res_level
        (computeScore sampleHost defaultConfig [(''text'', unweightedOnly)])
       = Inr MODERATE_TRUST
   \<and> map_sum id res_score
        (computeScore sampleHost defaultConfig [(''text'', unweightedOnly)])
       = Inr (Some 0.5)
   \<and> map_sum id (length \<circ> res_issues)
        (computeScore sampleHost defaultConfig [(''text'', unweightedOnly)]) = Inr 3
   \<and> map_sum id res_level
        (computeScore sampleHost defaultConfig [(''account'', agedAccount)])
       = Inr HIGH_TRUST
   \<and> map_sum id res_level
        (computeScore sampleHost defaultConfig
           [(''text'', unweightedOnly), (''account'', agedAccount)])
       = Inr MODERATE_TRUST"
proof -
  have w: "weightTotal (plainRead textWeights) unweightedOnly = 0"
    by (simp add: weightTotal_def unweightedOnly_def contributes_def plainRead_def
        textWeights_def objectPrototype_def)
  have t: "map_of weights ''text'' = Some textWeights"
    and a: "map_of weights ''account'' = Some accountWeights"
    by (simp_all add: weights_def)
  have nt: "nonNullCount unweightedOnly = 3"
    by (simp add: nonNullCount_def unweightedOnly_def contributes_def)
  have na: "nonNullCount agedAccount = 3"
    by (simp add: nonNullCount_def agedAccount_def contributes_def)
  have ct: "scoreCatgory ''text'' unweightedOnly textWeights =
      \<lparr>cat_score = 1 / 2, cat_signalCount = 3, cat_issues = issuesOf ''text'' unweightedOnly\<rparr>"
    by (simp add: scoreCatgory_closed w nt)
  have ia: "issuesOf ''account'' agedAccount = []"
    by (simp add: issuesOf_def agedAccount_def contributes_def)
  have xa: "\<not> exoticWeight (plainRead accountWeights) agedAccount"
    by (simp add: exoticWeight_def agedAccount_def plainRead_def accountWeights_def)
  have wa: "weightTotal (plainRead accountWeights) agedAccount = 3 / 4"
    by (simp add: weightTotal_def agedAccount_def contributes_def plainRead_def
        accountWeights_def)
  have sa: "scoreTotal (plainRead accountWeights) agedAccount = 27 / 40"
    by (simp add: scoreTotal_def agedAccount_def contributes_def plainRead_def
        accountWeights_def)
  have ca: "scoreCatgory ''account'' agedAccount accountWeights =
      \<lparr>cat_score = 9 / 10, cat_signalCount = 3, cat_issues = []\<rparr>"
    using xa by (simp add: scoreCatgory_closed wa sa na ia)
  have li: "length (issuesOf ''text'' unweightedOnly) = 3"
    by (simp add: issuesOf_def unweightedOnly_def contributes_def)
  have et: "scoreEntries sampleHost emptyScores [(''text'', unweightedOnly)] =
      Inr \<lparr>categoryScores = [(''text'', \<lparr>cat_score = 1 / 2, cat_signalCount = 3,
                cat_issues = issuesOf ''text'' unweightedOnly\<rparr>)],
           flaggedIssues = issuesOf ''text'' unweightedOnly, totalSignals = 3\<rparr>"
    by (simp add: scoreEntry_own [OF t] nt ct emptyScores_def)
  have ea: "scoreEntries sampleHost emptyScores [(''account'', agedAccount)] =
      Inr \<lparr>categoryScores = [(''account'', \<lparr>cat_score = 9 / 10, cat_signalCount = 3,
                cat_issues = []\<rparr>)],
           flaggedIssues = [], totalSignals = 3\<rparr>"
    by (simp add: scoreEntry_own [OF a] na ca ia emptyScores_def)
  have eb: "scoreEntries sampleHost emptyScores
        [(''text'', unweightedOnly), (''account'', agedAccount)] =
      Inr \<lparr>categoryScores = [(''text'', \<lparr>cat_score = 1 / 2, cat_signalCount = 3,
                cat_issues = issuesOf ''text'' unweightedOnly\<rparr>),
              (''account'', \<lparr>cat_score = 9 / 10, cat_signalCount = 3, cat_issues = []\<rparr>)],
           flaggedIssues = issuesOf ''text'' unweightedOnly, totalSignals = 6\<rparr>"
    by (simp add: scoreEntry_own [OF t] scoreEntry_own [OF a] nt na ct ca ia emptyScores_def)
  have ft: "finalScoreOf [(''text'', \<lparr>cat_score = 1 / 2, cat_signalCount = 3,
                cat_issues = issuesOf ''text'' unweightedOnly\<rparr>)] = 1 / 2"
    by (simp add: finalScoreOf_def plainRead_def categoryWeights_def)
  have fa: "finalScoreOf [(''account'', \<lparr>cat_score = 9 / 10, cat_signalCount = 3,
                cat_issues = []\<rparr>)] = 9 / 10"
    by (simp add: finalScoreOf_def plainRead_def categoryWeights_def)
  have fb: "finalScoreOf [(''text'', \<lparr>cat_score = 1 / 2, cat_signalCount = 3,
                cat_issues = issuesOf ''text'' unweightedOnly\<rparr>),
              (''account'', \<lparr>cat_score = 9 / 10, cat_signalCount = 3, cat_issues = []\<rparr>)]
            = 15 / 22"
    by (simp add: finalScoreOf_def plainRead_def categoryWeights_def)
  have 1: "map_sum id res_signalCount
        (computeScore sampleHost defaultConfig [(''text'', unweightedOnly)]) = Inr 3"
    unfolding computeScore_def et by (simp add: Let_def defaultConfig_def)
  have 2: "map_sum id res_level
        (computeScore sampleHost defaultConfig [(''text'', unweightedOnly)])
       = Inr MODERATE_TRUST"
    unfolding computeScore_def et
    by (simp add: Let_def defaultConfig_def ft getTrustLevel_def threshold_HIGH_TRUST_def
        threshold_MODERATE_TRUST_def)
  have 3: "map_sum id res_score
        (computeScore sampleHost defaultConfig [(''text'', unweightedOnly)])
       = Inr (Some 0.5)"
    unfolding computeScore_def et by (simp add: Let_def defaultConfig_def ft)
  have 4: "map_sum id (length \<circ> res_issues)
        (computeScore sampleHost defaultConfig [(''text'', unweightedOnly)]) = Inr 3"
    unfolding computeScore_def et by (simp add: Let_def defaultConfig_def li)
  have 5: "map_sum id res_level
        (computeScore sampleHost defaultConfig [(''account'', agedAccount)])
       = Inr HIGH_TRUST"
    unfolding computeScore_def ea
    by (simp add: Let_def defaultConfig_def fa getTrustLevel_def threshold_HIGH_TRUST_def)
  have 6: "map_sum id res_level
        (computeScore sampleHost defaultConfig
           [(''text'', unweightedOnly), (''account'', agedAccount)])
       = Inr MODERATE_TRUST"
    unfolding computeScore_def eb
    by (simp add: Let_def defaultConfig_def fb getTrustLevel_def threshold_HIGH_TRUST_def
        threshold_MODERATE_TRUST_def)
  show ?thesis
    using w 1 2 3 4 5 6 by blast
qed

text \<open>
  Claim C2, amended, for bundles whose keys are distinct and are not names a plain object
  inherits. A category without any non-null signal is excluded entirely: the result is
  that of the bundle without the category. Signals without a defined weight do not enter
  the per-category weighted average (the category score is that of the other signals
  alone), but every non-null signal, weighted or not, counts toward \<^verbatim>\<open>signalCount\<close>
  and raises an issue when its score is below 0.4. A category whose non-null signals all
  lack a weight has category score 0.5, and like every category of the weight table with
  a non-null signal it is an entry of \<^verbatim>\<open>details\<close> and enters the overall score, which
  is the average of the \<^verbatim>\<open>details\<close> scores weighted by their category weights.
\<close>

theorem C2_zero_weight_categories:
  "(nonNullCount g = 0 \<and> c \<notin> set objectPrototype \<longrightarrow>
      computeScore h cfg (pre @ (c, g) # post) = computeScore h cfg (pre @ post))
   \<and> cat_score (scoreCatgory c g t)
       = cat_score (scoreCatgory c (filter (\<lambda>e. \<not> unweighted t e) g) t)
   \<and> cat_signalCount (scoreCatgory c g t) = nonNullCount g
   \<and> (\<forall>e\<in>set g. \<forall>x. normalizedValue (snd e) = Some x \<and> x < 0.4 \<longrightarrow>
        mkIssue c (fst e) (snd e) x \<in> set (cat_issues (scoreCatgory c g t)))
   \<and> ((\<forall>e\<in>set g. contributes e \<longrightarrow> unweighted t e) \<longrightarrow>
        cat_score (scoreCatgory c g t) = 0.5)
   \<and> (\<forall>r. computeScore h cfg b = Inr r \<and> distinct (map fst b)
          \<and> (\<forall>e\<in>set b. fst e \<notin> set objectPrototype) \<longrightarrow>
        res_details r = scoredCategories b
        \<and> res_signalCount r = (\<Sum>d\<leftarrow>res_details r. cat_signalCount (snd d))
        \<and> (minSignalsRequired cfg \<le> real (res_signalCount r) \<longrightarrow>
             res_score r = Some (weightedAverage (res_details r)))
        \<and> (\<forall>e\<in>set b. \<forall>t'. map_of weights (fst e) = Some t' \<and> 0 < nonNullCount (snd e) \<longrightarrow>
             (fst e, scoreCatgory (fst e) (snd e) t') \<in> set (res_details r)))"
proof (intro conjI impI ballI allI)
  assume "nonNullCount g = 0 \<and> c \<notin> set objectPrototype"
  then show "computeScore h cfg (pre @ (c, g) # post) = computeScore h cfg (pre @ post)"
    by (simp add: computeScore_def scoreEntries_append scoreEntry_empty_category
        split: sum.splits)
next
  show "cat_score (scoreCatgory c g t)
       = cat_score (scoreCatgory c (filter (\<lambda>e. \<not> unweighted t e) g) t)"
    by (simp add: scoreCatgory_closed weightTotal_weighted_only scoreTotal_weighted_only
        exoticWeight_weighted_only)
next
  show "cat_signalCount (scoreCatgory c g t) = nonNullCount g"
    by (simp add: scoreCatgory_closed)
next
  fix e x
  assume "e \<in> set g" and "normalizedValue (snd e) = Some x \<and> x < 0.4"
  then show "mkIssue c (fst e) (snd e) x \<in> set (cat_issues (scoreCatgory c g t))"
    by (force simp: scoreCatgory_closed issuesOf_def contributes_def)
next
  assume "\<forall>e\<in>set g. contributes e \<longrightarrow> unweighted t e"
  then show "cat_score (scoreCatgory c g t) = 0.5"
    by (simp add: scoreCatgory_closed weightTotal_unweighted)
next
  fix r
  assume a: "computeScore h cfg b = Inr r \<and> distinct (map fst b)
          \<and> (\<forall>e\<in>set b. fst e \<notin> set objectPrototype)"
  then have r: "computeScore h cfg b = Inr r" and d: "distinct (map fst b)"
    and p: "\<forall>e\<in>set b. fst e \<notin> set objectPrototype"
    by simp_all
  show det: "res_details r = scoredCategories b"
    by (rule res_details_computeScore [OF r d p])
  show "res_signalCount r = (\<Sum>d\<leftarrow>res_details r. cat_signalCount (snd d))"
    using computeScore_insufficient [OF r] scoredCategories_count [OF p] by (simp add: det)
  {
    assume "minSignalsRequired cfg \<le> real (res_signalCount r)"
    then have "minSignalsRequired cfg \<le> real (nonNullSignals b)"
      using computeScore_insufficient [OF r] by simp
    from computeScore_sufficient [OF r this]
    show "res_score r = Some (weightedAverage (res_details r))"
      by (simp add: det finalScoreOf_scoredCategories)
  }
  fix e t'
  assume e: "e \<in> set b" and "map_of weights (fst e) = Some t' \<and> 0 < nonNullCount (snd e)"
  then show "(fst e, scoreCatgory (fst e) (snd e) t') \<in> set (res_details r)"
    unfolding det scoredCategories_def by force
qed


text \<open>
  A text category of null signals beside an account category, and the three unweighted
  signals, alone and beside the account category.
\<close>

theorem C2_zero_weight_categories_witness:
  "nonNullCount [(''aiDetection'', SigNull), (''templateMatching'', SigObject None None)] = 0
   \<and> computeScore sampleHost defaultConfig
        [(''text'', [(''aiDetection'', SigNull), (''templateMatching'', SigObject None None)]),
         (''account'', agedAccount)]
       = computeScore sampleHost defaultConfig [(''account'', agedAccount)]
   \<and> normalizedValue (SigNumber 0.1) = Some 0.1 \<and> (0.1::real) < 0.4
   \<and> mkIssue ''text'' ''foo'' (SigNumber 0.1) 0.1
       \<in> set (cat_issues (scoreCatgory ''text'' unweightedOnly textWeights))
   \<and> cat_score (scoreCatgory ''text'' unweightedOnly textWeights) = 0.5
   \<and> distinct (map fst [(''text'', unweightedOnly), (''account'', agedAccount)])
   \<and> map_sum id res_details
        (computeScore sampleHost defaultConfig
           [(''text'', unweightedOnly), (''account'', agedAccount)])
       = Inr [(''text'', scoreCatgory ''text'' unweightedOnly textWeights),
              (''account'', scoreCatgory ''account'' agedAccount accountWeights)]
   \<and> map_sum id res_score
        (computeScore sampleHost defaultConfig
           [(''text'', unweightedOnly), (''account'', agedAccount)])
       = Inr (Some (weightedAverage
           [(''text'', scoreCatgory ''text'' unweightedOnly textWeights),
            (''account'', scoreCatgory ''account'' agedAccount accountWeights)]))"
proof -
  let ?h = sampleHost
  let ?b = "[(''text'', unweightedOnly), (''account'', agedAccount)]"
  have n: "nonNullCount [(''aiDetection'', SigNull),
      (''templateMatching'', SigObject None None)] = 0"
    by (simp add: nonNullCount_def contributes_def)
  have p: "''text'' \<notin> set objectPrototype" "''account'' \<notin> set objectPrototype"
    by (simp_all add: objectPrototype_def)
  have u: "\<forall>e\<in>set unweightedOnly. normalizedValue (snd e) = Some 0.1 \<and> (0.1::real) < 0.4"
    by (simp add: unweightedOnly_def)
  have m: "(''foo'', SigNumber 0.1) \<in> set unweightedOnly"
    by (simp add: unweightedOnly_def)
  have w: "\<forall>e\<in>set unweightedOnly. contributes e \<longrightarrow> unweighted textWeights e"
    by (simp add: unweightedOnly_def unweighted_def plainRead_def textWeights_def
        objectPrototype_def)
  have nt: "nonNullCount unweightedOnly = 3"
    by (simp add: nonNullCount_def unweightedOnly_def contributes_def)
  have na: "nonNullCount agedAccount = 3"
    by (simp add: nonNullCount_def agedAccount_def contributes_def)
  have t: "map_of weights ''text'' = Some textWeights"
    and a: "map_of weights ''account'' = Some accountWeights"
    by (simp_all add: weights_def)
  have sc: "scoredCategories ?b =
      [(''text'', scoreCatgory ''text'' unweightedOnly textWeights),
       (''account'', scoreCatgory ''account'' agedAccount accountWeights)]"
    by (simp add: scoredCategories_def t a nt na)
  have ns: "nonNullSignals ?b = 6"
    by (simp add: weightsOf_plain p t a nt na)
  have nothrow: "\<not> list_ex (entryThrows ?h) ?b"
    by (simp add: entryThrows_def weightsOf_plain p t a readsThrow_own)
  from computeScore_returns [OF nothrow, of defaultConfig]
  obtain r where r: "computeScore ?h defaultConfig ?b = Inr r" by blast
  have "res_signalCount r = nonNullSignals ?b"
    using computeScore_insufficient [OF r] by blast
  then have cnt: "res_signalCount r = 6"
    by (simp only: ns)
  have 1: "computeScore ?h defaultConfig
        ([] @ (''text'', [(''aiDetection'', SigNull), (''templateMatching'', SigObject None None)])
           # [(''account'', agedAccount)])
       = computeScore ?h defaultConfig ([] @ [(''account'', agedAccount)])"
    using n p C2_zero_weight_categories
      [of "[(''aiDetection'', SigNull), (''templateMatching'', SigObject None None)]"
        "''text''" ?h defaultConfig "[]" "[(''account'', agedAccount)]" textWeights "[]"]
    by blast
  note inst = C2_zero_weight_categories [of unweightedOnly "''text''" ?h defaultConfig "[]" "[]"
      textWeights ?b]
  have 2: "mkIssue ''text'' ''foo'' (SigNumber 0.1) 0.1
       \<in> set (cat_issues (scoreCatgory ''text'' unweightedOnly textWeights))"
    using u m inst by fastforce
  have 3: "cat_score (scoreCatgory ''text'' unweightedOnly textWeights) = 0.5"
    using w inst by blast
  have d: "distinct (map fst ?b)" by simp
  have pb: "\<forall>e\<in>set ?b. fst e \<notin> set objectPrototype" using p by simp
  have 4: "res_details r = scoredCategories ?b"
    and 5: "minSignalsRequired defaultConfig \<le> real (res_signalCount r) \<longrightarrow>
      res_score r = Some (weightedAverage (res_details r))"
    using inst r d pb by blast+
  have 6: "res_score r = Some (weightedAverage (res_details r))"
    using 5 by (simp add: cnt defaultConfig_def)
  show ?thesis
    using n 1 2 3 4 6 by (simp add: r sc)
qed

subsection \<open>Bare numbers as signal values\<close>

lemma catSummary_assign:
  "catSummary cs = catSummary cs' \<Longrightarrow> cat_score r = cat_score r' \<Longrightarrow>
   cat_signalCount r = cat_signalCount r' \<Longrightarrow>
   catSummary (assign cs k r) = catSummary (assign cs' k r')"
proof (induction cs arbitrary: cs')
  case Nil
  then show ?case by (simp add: catSummary_def)
next
  case (Cons p ps)
  then obtain p' ps' where cs': "cs' = p' # ps'" by (cases cs') (auto simp: catSummary_def)
  obtain k0 r0 where p: "p = (k0, r0)" by (cases p)
  obtain k0' r0' where p': "p' = (k0', r0')" by (cases p')
  have tl: "catSummary ps = catSummary ps'" and hd: "k0 = k0'"
    using Cons.prems(1) by (simp_all add: catSummary_def cs' p p')
  have ih: "catSummary (assign ps k r) = catSummary (assign ps' k r')"
    by (rule Cons.IH [OF tl Cons.prems(2,3)])
  show ?case
    using Cons.prems ih by (auto simp: cs' p p' catSummary_def)
qed

lemma catSummary_assignProperty:
  "catSummary cs = catSummary cs' \<Longrightarrow> cat_score r = cat_score r' \<Longrightarrow>
   cat_signalCount r = cat_signalCount r' \<Longrightarrow>
   catSummary (assignProperty cs k r) = catSummary (assignProperty cs' k r')"
proof (cases "k = ''__proto__''")
  case True
  assume "catSummary cs = catSummary cs'"
  then show ?thesis using True by (simp add: assignProperty_def)
next
  case False
  assume "catSummary cs = catSummary cs'" and "cat_score r = cat_score r'"
    and "cat_signalCount r = cat_signalCount r'"
  then have "catSummary (assign cs k r) = catSummary (assign cs' k r')"
    by (rule catSummary_assign)
  then show ?thesis using False by (simp add: assignProperty_def)
qed

lemma weightedSum_summary:
  "catSummary cs = catSummary cs' \<Longrightarrow> weightedSum p cs = weightedSum p cs'"
proof (induction cs arbitrary: cs' p)
  case Nil
  then show ?case by (simp add: catSummary_def)
next
  case (Cons q qs)
  then obtain q' qs' where cs': "cs' = q' # qs'" by (cases cs') (auto simp: catSummary_def)
  obtain k0 r0 where q: "q = (k0, r0)" by (cases q)
  obtain k0' r0' where q': "q' = (k0', r0')" by (cases q')
  have tl: "catSummary qs = catSummary qs'" and hd: "k0 = k0'" "cat_score r0 = cat_score r0'"
    using Cons.prems by (simp_all add: catSummary_def cs' q q')
  show ?case
    by (simp add: cs' q q' hd Cons.IH [OF tl])
qed

lemma issueCore_mkIssue:
  "issueCore (mkIssue c k v x) = (c, k, x, if x < 0.2 then High else Medium)"
  by (simp add: issueCore_def mkIssue_def)

lemma issuesOf_plain_number:
  "map issueCore (issuesOf c (xs @ (k, SigNumber s) # ys))
     = map issueCore (issuesOf c (xs @ (k, SigObject (Some s) d) # ys))"
  by (simp add: issuesOf_def contributes_def issueCore_mkIssue)

lemma sameUpToDetail_refl: "sameUpToDetail a a"
  by (simp add: sameUpToDetail_def)

lemma scoreEntry_sameOutcome:
  assumes "sameUpToDetail a a'"
    and "\<And>rd. readsThrow rd g = readsThrow rd g'"
    and "nonNullCount g = nonNullCount g'"
    and "map issueCore (issuesOf c g) = map issueCore (issuesOf c g')"
    and "\<And>rd. exoticWeight rd g = exoticWeight rd g' \<and> weightTotal rd g = weightTotal rd g'
           \<and> scoreTotal rd g = scoreTotal rd g'"
  shows "sameOutcome (scoreEntry h a (c, g)) (scoreEntry h a' (c, g'))"
proof (cases "weightsOf c")
  case None
  then show ?thesis using assms(1) by (simp add: scoreEntry_closed sameOutcome_def)
next
  case (Some table)
  show ?thesis
  proof (cases "readsThrow (readWeight h table) g")
    case True
    then show ?thesis
      using assms(2) [of "readWeight h table"]
      by (simp add: scoreEntry_closed Some sameOutcome_def)
  next
    case False
    then have f': "\<not> readsThrow (readWeight h table) g'"
      using assms(2) [of "readWeight h table"] by simp
    define rd where "rd = (\<lambda>k. valueRead (readWeight h table k))"
    have s: "cat_score (finish (scoreSignals c rd emptyAcc g))
        = cat_score (finish (scoreSignals c rd emptyAcc g'))"
      and n: "cat_signalCount (finish (scoreSignals c rd emptyAcc g))
        = cat_signalCount (finish (scoreSignals c rd emptyAcc g'))"
      using assms(3) assms(5) [of rd] by (simp_all add: finish_scoreSignals)
    have cs: "catSummary (assignProperty (categoryScores a) c
          (finish (scoreSignals c rd emptyAcc g)))
        = catSummary (assignProperty (categoryScores a') c
          (finish (scoreSignals c rd emptyAcc g')))"
      by (rule catSummary_assignProperty [OF _ s n])
        (use assms(1) in \<open>simp add: sameUpToDetail_def\<close>)
    show ?thesis
      using False f' assms(1,3,4) cs
      by (simp add: scoreEntry_closed Some sameOutcome_def sameUpToDetail_def rd_def)
  qed
qed

lemma scoreEntries_sameOutcome:
  "sameUpToDetail a a' \<Longrightarrow> sameOutcome (scoreEntries h a es) (scoreEntries h a' es)"
proof (induction es arbitrary: a a')
  case Nil
  then show ?case by (simp add: sameOutcome_def)
next
  case (Cons e es)
  obtain c g where e: "e = (c, g)" by (cases e)
  have 1: "sameOutcome (scoreEntry h a (c, g)) (scoreEntry h a' (c, g))"
    by (rule scoreEntry_sameOutcome [OF Cons.prems]) simp_all
  show ?case
  proof (cases "scoreEntry h a (c, g)")
    case (Inl err)
    then show ?thesis
      using 1 by (cases "scoreEntry h a' (c, g)") (simp_all add: e sameOutcome_def)
  next
    case (Inr a1)
    then obtain a1' where r: "scoreEntry h a' (c, g) = Inr a1'" and s: "sameUpToDetail a1 a1'"
      using 1 by (cases "scoreEntry h a' (c, g)") (simp_all add: sameOutcome_def)
    show ?thesis by (simp add: e Inr r Cons.IH [OF s])
  qed
qed

lemma scoreEntries_plain_number:
  "sameOutcome
     (scoreEntries h a (pre @ (c, xs @ (k, SigNumber s) # ys) # post))
     (scoreEntries h a (pre @ (c, xs @ (k, SigObject (Some s) d) # ys) # post))"
proof (cases "scoreEntries h a pre")
  case (Inl err)
  then show ?thesis by (simp add: scoreEntries_append sameOutcome_def)
next
  case (Inr a0)
  have 1: "sameOutcome
      (scoreEntry h a0 (c, xs @ (k, SigNumber s) # ys))
      (scoreEntry h a0 (c, xs @ (k, SigObject (Some s) d) # ys))"
    by (rule scoreEntry_sameOutcome [OF sameUpToDetail_refl])
      (simp_all add: readsThrow_def nonNullCount_def contributes_def issuesOf_plain_number
        exoticWeight_def weightTotal_def scoreTotal_def)
  show ?thesis
  proof (cases "scoreEntry h a0 (c, xs @ (k, SigNumber s) # ys)")
    case (Inl err)
    then show ?thesis
      using 1
      by (cases "scoreEntry h a0 (c, xs @ (k, SigObject (Some s) d) # ys)")
        (simp_all add: scoreEntries_append Inr sameOutcome_def)
  next
    case (Inr a1)
    then obtain a1' where r: "scoreEntry h a0 (c, xs @ (k, SigObject (Some s) d) # ys) = Inr a1'"
      and s: "sameUpToDetail a1 a1'"
      using 1
      by (cases "scoreEntry h a0 (c, xs @ (k, SigObject (Some s) d) # ys)")
        (simp_all add: sameOutcome_def)
    show ?thesis
      by (simp add: scoreEntries_append \<open>scoreEntries h a pre = Inr a0\<close> Inr r
          scoreEntries_sameOutcome [OF s])
  qed
qed

lemma computeScore_sameOutcome:
  assumes "sameOutcome (scoreEntries h emptyScores b) (scoreEntries h emptyScores b')"
  shows "map_sum id res_score (computeScore h cfg b)
      = map_sum id res_score (computeScore h cfg b')
    \<and> map_sum id res_level (computeScore h cfg b)
      = map_sum id res_level (computeScore h cfg b')
    \<and> map_sum id res_confidence (computeScore h cfg b)
      = map_sum id res_confidence (computeScore h cfg b')
    \<and> map_sum id res_signalCount (computeScore h cfg b)
      = map_sum id res_signalCount (computeScore h cfg b')
    \<and> map_sum id (\<lambda>r. map issueCore (res_issues r)) (computeScore h cfg b)
      = map_sum id (\<lambda>r. map issueCore (res_issues r)) (computeScore h cfg b')"
proof (cases "scoreEntries h emptyScores b")
  case (Inl err)
  then have "scoreEntries h emptyScores b' = Inl err"
    using assms by (cases "scoreEntries h emptyScores b'") (simp_all add: sameOutcome_def)
  then show ?thesis by (simp add: computeScore_def Inl)
next
  case (Inr a)
  then obtain a' where r: "scoreEntries h emptyScores b' = Inr a'" and s: "sameUpToDetail a a'"
    using assms by (cases "scoreEntries h emptyScores b'") (simp_all add: sameOutcome_def)
  have w: "finalScoreOf (categoryScores a) = finalScoreOf (categoryScores a')"
    unfolding finalScoreOf_def
    by (rule arg_cong [where f = ratioOrHalf], rule weightedSum_summary)
      (use s in \<open>simp add: sameUpToDetail_def\<close>)
  have n: "totalSignals a = totalSignals a'"
    and i: "map issueCore (flaggedIssues a) = map issueCore (flaggedIssues a')"
    using s by (simp_all add: sameUpToDetail_def)
  show ?thesis
    by (simp add: computeScore_def Inr r Let_def w n i)
qed

lemma issuesOf_origin:
  "i \<in> set (issuesOf c g) \<Longrightarrow>
   \<exists>e\<in>set g. issue_category i = c \<and> issue_signal i = fst e \<and> issue_detail i = detailOf (snd e)"
  by (force simp: issuesOf_def mkIssue_def)

lemma flaggedIssues_scoreEntry:
  "scoreEntry h acc e = Inr acc' \<Longrightarrow> i \<in> set (flaggedIssues acc') \<Longrightarrow>
   i \<in> set (flaggedIssues acc) \<or> i \<in> set (issuesOf (fst e) (snd e))"
  by (auto simp: scoreEntry_closed split: option.splits if_splits)

lemma flaggedIssues_scoreEntries:
  "scoreEntries h acc b = Inr acc' \<Longrightarrow> i \<in> set (flaggedIssues acc') \<Longrightarrow>
   i \<in> set (flaggedIssues acc) \<or> (\<exists>e\<in>set b. i \<in> set (issuesOf (fst e) (snd e)))"
proof (induction b arbitrary: acc)
  case Nil
  then show ?case by simp
next
  case (Cons e es)
  from Cons.prems(1) obtain a where a: "scoreEntry h acc e = Inr a"
    and rest: "scoreEntries h a es = Inr acc'"
    by (auto split: sum.splits)
  from Cons.IH [OF rest Cons.prems(2)]
  have "i \<in> set (flaggedIssues a) \<or> (\<exists>e\<in>set es. i \<in> set (issuesOf (fst e) (snd e)))" .
  then show ?case using flaggedIssues_scoreEntry [OF a, of i] by auto
qed

lemma set_assign: "set (assign kvs k v) \<subseteq> insert (k, v) (set kvs)"
  by (induction kvs) (auto split: if_splits)

lemma set_assignProperty: "set (assignProperty kvs k v) \<subseteq> insert (k, v) (set kvs)"
  using set_assign [of kvs k v] by (auto simp: assignProperty_def)

lemma categoryIssues_scoreEntry:
  assumes "scoreEntry h acc e = Inr acc'" and "p \<in> set (categoryScores acc')"
  shows "p \<in> set (categoryScores acc) \<or> cat_issues (snd p) = issuesOf (fst e) (snd e)"
proof (cases "weightsOf (fst e)")
  case None
  then show ?thesis using assms by (simp add: scoreEntry_closed)
next
  case (Some table)
  define r where
    "r = finish (scoreSignals (fst e) (\<lambda>k. valueRead (readWeight h table k)) emptyAcc (snd e))"
  have i: "cat_issues r = issuesOf (fst e) (snd e)"
    by (simp add: r_def finish_scoreSignals)
  have "categoryScores acc' = categoryScores acc
      \<or> categoryScores acc' = assignProperty (categoryScores acc) (fst e) r"
    using assms(1) by (auto simp: scoreEntry_closed Some r_def split: if_splits)
  then show ?thesis
  proof
    assume "categoryScores acc' = categoryScores acc"
    then show ?thesis using assms(2) by simp
  next
    assume "categoryScores acc' = assignProperty (categoryScores acc) (fst e) r"
    then have "p \<in> insert (fst e, r) (set (categoryScores acc))"
      using assms(2) set_assignProperty [of "categoryScores acc" "fst e" r] by auto
    then show ?thesis using i by auto
  qed
qed

lemma categoryIssues_scoreEntries:
  "scoreEntries h acc b = Inr acc' \<Longrightarrow> p \<in> set (categoryScores acc') \<Longrightarrow>
   p \<in> set (categoryScores acc) \<or> (\<exists>e\<in>set b. cat_issues (snd p) = issuesOf (fst e) (snd e))"
proof (induction b arbitrary: acc)
  case Nil
  then show ?case by simp
next
  case (Cons e es)
  from Cons.prems(1) obtain a where a: "scoreEntry h acc e = Inr a"
    and rest: "scoreEntries h a es = Inr acc'"
    by (auto split: sum.splits)
  from Cons.IH [OF rest Cons.prems(2)]
  have "p \<in> set (categoryScores a)
      \<or> (\<exists>e\<in>set es. cat_issues (snd p) = issuesOf (fst e) (snd e))" .
  then show ?case using categoryIssues_scoreEntry [OF a, of p] by auto
qed

lemma res_issues_origin:
  assumes "computeScore h cfg b = Inr r"
    and "i \<in> set (res_issues r) \<or> (\<exists>p\<in>set (res_details r). i \<in> set (cat_issues (snd p)))"
  shows "\<exists>e\<in>set b. i \<in> set (issuesOf (fst e) (snd e))"
proof -
  from assms(1) obtain acc where acc: "scoreEntries h emptyScores b = Inr acc"
    by (auto simp: computeScore_def split: sum.splits)
  have d: "res_details r = categoryScores acc"
    using assms(1) by (auto simp: computeScore_def acc Let_def split: if_splits)
  from assms(2) show ?thesis
  proof
    assume "i \<in> set (res_issues r)"
    then have "i \<in> set (flaggedIssues acc)"
      using assms(1) by (auto simp: computeScore_def acc Let_def split: if_splits)
    from flaggedIssues_scoreEntries [OF acc this] show ?thesis
      by (simp add: emptyScores_def)
  next
    assume "\<exists>p\<in>set (res_details r). i \<in> set (cat_issues (snd p))"
    then obtain p where p: "p \<in> set (categoryScores acc)" and i: "i \<in> set (cat_issues (snd p))"
      by (auto simp: d)
    from categoryIssues_scoreEntries [OF acc p]
    obtain e where "e \<in> set b" and "cat_issues (snd p) = issuesOf (fst e) (snd e)"
      by (auto simp: emptyScores_def)
    then show ?thesis using i by (intro bexI [of _ e]) simp_all
  qed
qed

text \<open>
  Claim C9. Replacing, anywhere in a bundle, a signal's object form with score \<open>s\<close> and
  detail \<open>d\<close> by the bare number \<open>s\<close> leaves the outcome of \<^verbatim>\<open>computeScore\<close>
  unchanged in its score, level, confidence and \<^verbatim>\<open>signalCount\<close>, and its issues
  unchanged apart from their detail (where one call throws, the other throws the same
  error); with the keys of the bundle and of the group distinct, as the keys of an object
  are, every issue raised for that signal, in \<^verbatim>\<open>issues\<close> and in the \<^verbatim>\<open>details\<close> of
  its category, carries detail null.
\<close>

theorem C9_bare_number_signal:
  "map_sum id res_score (computeScore h cfg (pre @ (c, xs @ (k, SigNumber s) # ys) # post))
     = map_sum id res_score
         (computeScore h cfg (pre @ (c, xs @ (k, SigObject (Some s) d) # ys) # post))
   \<and> map_sum id res_level (computeScore h cfg (pre @ (c, xs @ (k, SigNumber s) # ys) # post))
     = map_sum id res_level
         (computeScore h cfg (pre @ (c, xs @ (k, SigObject (Some s) d) # ys) # post))
   \<and> map_sum id res_confidence
       (computeScore h cfg (pre @ (c, xs @ (k, SigNumber s) # ys) # post))
     = map_sum id res_confidence
         (computeScore h cfg (pre @ (c, xs @ (k, SigObject (Some s) d) # ys) # post))
   \<and> map_sum id res_signalCount
       (computeScore h cfg (pre @ (c, xs @ (k, SigNumber s) # ys) # post))
     = map_sum id res_signalCount
         (computeScore h cfg (pre @ (c, xs @ (k, SigObject (Some s) d) # ys) # post))
   \<and> map_sum id (\<lambda>r. map issueCore (res_issues r))
       (computeScore h cfg (pre @ (c, xs @ (k, SigNumber s) # ys) # post))
     = map_sum id (\<lambda>r. map issueCore (res_issues r))
         (computeScore h cfg (pre @ (c, xs @ (k, SigObject (Some s) d) # ys) # post))
   \<and> (distinct (map fst (pre @ (c, xs @ (k, SigNumber s) # ys) # post))
        \<and> distinct (map fst (xs @ (k, SigNumber s) # ys)) \<longrightarrow>
      (\<forall>r. computeScore h cfg (pre @ (c, xs @ (k, SigNumber s) # ys) # post) = Inr r \<longrightarrow>
         (\<forall>i\<in>set (res_issues r) \<union> (\<Union>p\<in>set (res_details r). set (cat_issues (snd p))).
            issue_category i = c \<and> issue_signal i = k \<longrightarrow> issue_detail i = None)))"
proof -
  let ?g = "xs @ (k, SigNumber s) # ys"
  let ?b = "pre @ (c, ?g) # post"
  let ?b' = "pre @ (c, xs @ (k, SigObject (Some s) d) # ys) # post"
  have 1: "map_sum id res_score (computeScore h cfg ?b)
      = map_sum id res_score (computeScore h cfg ?b')
    \<and> map_sum id res_level (computeScore h cfg ?b)
      = map_sum id res_level (computeScore h cfg ?b')
    \<and> map_sum id res_confidence (computeScore h cfg ?b)
      = map_sum id res_confidence (computeScore h cfg ?b')
    \<and> map_sum id res_signalCount (computeScore h cfg ?b)
      = map_sum id res_signalCount (computeScore h cfg ?b')
    \<and> map_sum id (\<lambda>r. map issueCore (res_issues r)) (computeScore h cfg ?b)
      = map_sum id (\<lambda>r. map issueCore (res_issues r)) (computeScore h cfg ?b')"
    by (rule computeScore_sameOutcome) (rule scoreEntries_plain_number)
  have 2: "issue_detail i = None"
    if db: "distinct (map fst ?b)" and dg: "distinct (map fst ?g)"
      and r: "computeScore h cfg ?b = Inr r"
      and i: "i \<in> set (res_issues r) \<union> (\<Union>p\<in>set (res_details r). set (cat_issues (snd p)))"
      and ic: "issue_category i = c" and ik: "issue_signal i = k" for i r
  proof -
    have "i \<in> set (res_issues r) \<or> (\<exists>p\<in>set (res_details r). i \<in> set (cat_issues (snd p)))"
      using i by auto
    from res_issues_origin [OF r this] obtain e where e: "e \<in> set ?b"
      and ie: "i \<in> set (issuesOf (fst e) (snd e))" by blast
    from issuesOf_origin [OF ie] obtain f where f: "f \<in> set (snd e)"
      and cat: "issue_category i = fst e" and sig: "issue_signal i = fst f"
      and det: "issue_detail i = detailOf (snd f)" by blast
    have "(c, snd e) \<in> set ?b" using e cat ic by (metis prod.collapse)
    moreover have "(c, ?g) \<in> set ?b" by simp
    ultimately have g: "snd e = ?g" by (rule eq_key_imp_eq_value [OF db])
    have "(k, snd f) \<in> set ?g" using f g sig ik by (metis prod.collapse)
    moreover have "(k, SigNumber s) \<in> set ?g" by simp
    ultimately have "snd f = SigNumber s" by (rule eq_key_imp_eq_value [OF dg])
    then show ?thesis using det by simp
  qed
  show ?thesis using 1 2 by blast
qed


text \<open>A flagged \<^verbatim>\<open>aiDetection\<close> of 0.1 beside two signals of 0.9.\<close>

theorem C9_bare_number_signal_witness:
  "distinct (map fst
      [(''text'', [(''aiDetection'', SigNumber 0.1), (''templateMatching'', SigNumber 0.9),
                   (''repetitionPattern'', SigNumber 0.9)])])
   \<and> distinct (map fst
      [(''aiDetection'', SigNumber 0.1), (''templateMatching'', SigNumber 0.9),
       (''repetitionPattern'', SigNumber 0.9)])
   \<and> map_sum id res_issues (computeScore sampleHost defaultConfig
        [(''text'', [(''aiDetection'', SigNumber 0.1), (''templateMatching'', SigNumber 0.9),
                     (''repetitionPattern'', SigNumber 0.9)])])
       = Inr [mkIssue ''text'' ''aiDetection'' (SigNumber 0.1) 0.1]
   \<and> issue_detail (mkIssue ''text'' ''aiDetection'' (SigNumber 0.1) 0.1) = None
   \<and> map_sum id res_score (computeScore sampleHost defaultConfig
        [(''text'', [(''aiDetection'', SigNumber 0.1), (''templateMatching'', SigNumber 0.9),
                     (''repetitionPattern'', SigNumber 0.9)])])
       = map_sum id res_score (computeScore sampleHost defaultConfig
        [(''text'', [(''aiDetection'', SigObject (Some 0.1) (Some ''flagged'')),
                     (''templateMatching'', SigNumber 0.9),
                     (''repetitionPattern'', SigNumber 0.9)])])"
proof -
  let ?h = sampleHost
  let ?ys = "[(''templateMatching'', SigNumber 0.9), (''repetitionPattern'', SigNumber 0.9)]"
  let ?g = "(''aiDetection'', SigNumber 0.1) # ?ys"
  let ?b = "[(''text'', ?g)]"
  have db: "distinct (map fst ?b)" by simp
  have dg: "distinct (map fst ?g)" by simp
  have t: "map_of weights ''text'' = Some textWeights" by (simp add: weights_def)
  have n: "nonNullCount ?g = 3" by (simp add: nonNullCount_def contributes_def)
  have cw: "0 < categoryWeight ''text''"
    by (simp add: categoryWeight_def plainRead_def categoryWeights_def)
  have io: "issuesOf ''text'' ?g = [mkIssue ''text'' ''aiDetection'' (SigNumber 0.1) 0.1]"
    by (simp add: issuesOf_def contributes_def)
  obtain r where r: "computeScore ?h defaultConfig ?b = Inr r"
    and ri: "res_issues r = issuesOf ''text'' ?g"
    using computeScore_single [OF t _ _ cw, of ?g defaultConfig ?h]
    by (simp add: n defaultConfig_def)
  note inst = C9_bare_number_signal [of ?h defaultConfig "[]" "''text''" "[]" "''aiDetection''"
      "0.1" ?ys "[]" "Some ''flagged''"]
  have iss: "map_sum id res_issues (computeScore ?h defaultConfig ?b)
      = Inr [mkIssue ''text'' ''aiDetection'' (SigNumber 0.1) 0.1]"
    by (simp add: r ri io)
  have m: "mkIssue ''text'' ''aiDetection'' (SigNumber 0.1) 0.1 \<in> set (res_issues r)"
    by (simp add: ri io)
  have det: "issue_detail (mkIssue ''text'' ''aiDetection'' (SigNumber 0.1) 0.1) = None"
    using inst db dg r m by (simp add: mkIssue_def)
  have sc: "map_sum id res_score (computeScore ?h defaultConfig ?b)
      = map_sum id res_score (computeScore ?h defaultConfig
          [(''text'', (''aiDetection'', SigObject (Some 0.1) (Some ''flagged'')) # ?ys)])"
    using inst by simp
  show ?thesis using db dg iss det sc by simp
qed

section \<open>Properties of the account analyzer\<close>

subsection \<open>Falsy constructor arguments\<close>

text \<open>
  Claim C10. The \<^verbatim>\<open>ReviewerProfile\<close> constructor turns every falsy supplied value into
  the field's default: a \<^verbatim>\<open>helpfulVotes\<close> or \<^verbatim>\<open>totalReviews\<close> of 0 and an empty
  \<^verbatim>\<open>displayName\<close>, \<^verbatim>\<open>bio\<close> or \<^verbatim>\<open>location\<close> become null, exactly as when the
  field is absent. The profile built from any data equals the profile built from the same
  data with its falsy fields left out, so \<^verbatim>\<open>analyze\<close>, and every other function of the
  profile, cannot tell the two apart.
\<close>

theorem C10_falsy_fields_become_defaults:
  "ReviewerProfile (data\<lparr>helpfulVotes := Val 0\<rparr>)
     = ReviewerProfile (data\<lparr>helpfulVotes := Undefined\<rparr>)
   \<and> helpfulVotes (ReviewerProfile (data\<lparr>helpfulVotes := Val 0\<rparr>)) = Null
   \<and> ReviewerProfile (data\<lparr>totalReviews := Val 0\<rparr>)
     = ReviewerProfile (data\<lparr>totalReviews := Undefined\<rparr>)
   \<and> totalReviews (ReviewerProfile (data\<lparr>totalReviews := Val 0\<rparr>)) = Null
   \<and> ReviewerProfile (data\<lparr>displayName := Val []\<rparr>)
     = ReviewerProfile (data\<lparr>displayName := Undefined\<rparr>)
   \<and> displayName (ReviewerProfile (data\<lparr>displayName := Val []\<rparr>)) = Null
   \<and> ReviewerProfile (data\<lparr>bio := Val []\<rparr>) = ReviewerProfile (data\<lparr>bio := Undefined\<rparr>)
   \<and> bio (ReviewerProfile (data\<lparr>bio := Val []\<rparr>)) = Null
   \<and> ReviewerProfile (data\<lparr>location := Val []\<rparr>)
     = ReviewerProfile (data\<lparr>location := Undefined\<rparr>)
   \<and> location (ReviewerProfile (data\<lparr>location := Val []\<rparr>)) = Null
   \<and> ReviewerProfile (dropFalsy data) = ReviewerProfile data
   \<and> analyzeAccount now parseDate (ReviewerProfile (dropFalsy data))
       = analyzeAccount now parseDate (ReviewerProfile data)
   \<and> (\<forall>detector. detector (ReviewerProfile (dropFalsy data)) = detector (ReviewerProfile data))"
proof -
  have d: "ReviewerProfile (dropFalsy data) = ReviewerProfile data"
    by (simp add: ReviewerProfile_def dropFalsy_def)
  show ?thesis
    by (simp add: d) (simp add: ReviewerProfile_def)
qed

subsection \<open>Missing profile fields\<close>

text \<open>
  Claim C3 meets a slip in the code. The constructor stores an unknown
  \<^verbatim>\<open>helpfulVotes\<close> as null, and the network detector guards with
  \<^verbatim>\<open>helpfulVotes !== undefined\<close>, which null passes: for the profile built from
  \<^verbatim>\<open>{totalReviews: 25}\<close> the detector divides null, read as 0, by 25 and returns
  the low score 0.4 with the detail ``Very low helpful vote ratio despite many reviews''
  instead of null, and \<^verbatim>\<open>analyze\<close> hands that score on. A malformed optional field is
  not treated as unknown either: with two \<^verbatim>\<open>reviewDates\<close> that \<^verbatim>\<open>new Date\<close>
  cannot read, \<^verbatim>\<open>toISOString\<close> throws a \<^verbatim>\<open>RangeError\<close> out of the
  posting-frequency detector and out of \<^verbatim>\<open>analyze\<close>.
\<close>

theorem C3_unknown_helpfulVotes_scored:
  "helpfulVotes manyReviewsData = Undefined
   \<and> helpfulVotes (ReviewerProfile manyReviewsData) = Null
   \<and> scoreNetworkSignals (ReviewerProfile manyReviewsData)
     = Some \<lparr>sig_score = 0.4,
             sig_detail = Some ''Very low helpful vote ratio despite many reviews''\<rparr>
   \<and> map_sum id networkConnections
       (analyzeAccount 0 (\<lambda>s. None) (ReviewerProfile manyReviewsData))
     = Inr (Some \<lparr>sig_score = 0.4,
             sig_detail = Some ''Very low helpful vote ratio despite many reviews''\<rparr>)
   \<and> scorePostingFrequency (\<lambda>s. None)
       (ReviewerProfile (emptyData\<lparr>reviewDates := Val [''soon'', ''later'']\<rparr>))
     = Inl RangeError
   \<and> analyzeAccount 0 (\<lambda>s. None)
       (ReviewerProfile (emptyData\<lparr>reviewDates := Val [''soon'', ''later'']\<rparr>))
     = Inl RangeError"
  by (simp add: scoreNetworkSignals_def scorePostingFrequency_def analyzeAccount_def
      scoreAccountAge_def scoreReviewDiversity_def scoreProfileCompleteness_def
      ReviewerProfile_def emptyData_def manyReviewsData_def completeness_def)
section \<open>Properties of the text analyzer\<close>

subsection \<open>Scores lie in the unit interval\<close>

lemma unitScore_Let: "(\<And>x. unitScore (f x)) \<Longrightarrow> unitScore (Let a f)"
  by (simp add: Let_def)

lemma unitScore_if: "unitScore a \<Longrightarrow> unitScore b \<Longrightarrow> unitScore (if c then a else b)"
  by simp

lemma unitScore_record:
  "0 \<le> s \<Longrightarrow> s \<le> 1 \<Longrightarrow> unitScore \<lparr>sig_score = s, sig_detail = d\<rparr>"
  by (simp add: unitScore_def)

lemma detectAIPatterns_unit: "unitScore (detectAIPatterns text)"
  unfolding detectAIPatterns_def
  by (intro unitScore_Let unitScore_if unitScore_record; simp)

lemma analyzeRepetition_unit: "unitScore (analyzeRepetition text)"
  unfolding analyzeRepetition_def
  by (intro unitScore_Let unitScore_if unitScore_record; simp)

lemma analyzeSentiment_unit: "unitScore (analyzeSentiment text)"
  unfolding analyzeSentiment_def
  by (intro unitScore_Let unitScore_if unitScore_record; simp)

lemma analyzeVocabulary_unit: "unitScore (analyzeVocabulary text)"
  unfolding analyzeVocabulary_def
  by (intro unitScore_Let unitScore_if unitScore_record; simp)

lemma detectTemplates_unit: "unitScore (detectTemplates text)"
  by (simp add: detectTemplates_def unitScore_def)

text \<open>
  Claim C5. For every text, each of the five outputs of \<^verbatim>\<open>analyze\<close> that is not null
  has a score between 0 and 1.
\<close>

theorem C5_lexical_scores_in_unit_interval:
  "(\<forall>out. aiDetection (analyze text) = Some out \<longrightarrow> 0 \<le> sig_score out \<and> sig_score out \<le> 1)
   \<and> (\<forall>out. repetitionPattern (analyze text) = Some out \<longrightarrow>
         0 \<le> sig_score out \<and> sig_score out \<le> 1)
   \<and> (\<forall>out. sentimentConsistency (analyze text) = Some out \<longrightarrow>
         0 \<le> sig_score out \<and> sig_score out \<le> 1)
   \<and> (\<forall>out. vocabularyDistribution (analyze text) = Some out \<longrightarrow>
         0 \<le> sig_score out \<and> sig_score out \<le> 1)
   \<and> (\<forall>out. templateMatching (analyze text) = Some out \<longrightarrow>
         0 \<le> sig_score out \<and> sig_score out \<le> 1)"
proof (cases "text = [] \<or> length text < 20")
  case True
  then show ?thesis by (simp add: analyze_def)
next
  case False
  then have "analyze text =
      \<lparr>aiDetection = Some (detectAIPatterns (trim (toLowerCase text))),
       repetitionPattern = Some (analyzeRepetition (trim (toLowerCase text))),
       sentimentConsistency = Some (analyzeSentiment (trim (toLowerCase text))),
       vocabularyDistribution = Some (analyzeVocabulary (trim (toLowerCase text))),
       templateMatching = Some (detectTemplates (trim (toLowerCase text)))\<rparr>"
    by (simp add: analyze_def Let_def)
  then show ?thesis
    using detectAIPatterns_unit [of "trim (toLowerCase text)"]
      analyzeRepetition_unit [of "trim (toLowerCase text)"]
      analyzeSentiment_unit [of "trim (toLowerCase text)"]
      analyzeVocabulary_unit [of "trim (toLowerCase text)"]
      detectTemplates_unit [of "trim (toLowerCase text)"]
    by (simp add: unitScore_def)
qed

text \<open>A review of 60 characters: all five signals are present.\<close>

theorem C5_lexical_scores_in_unit_interval_witness:
  "aiDetection (analyze shortReview) = Some (detectAIPatterns (trim (toLowerCase shortReview)))
   \<and> 0 \<le> sig_score (detectAIPatterns (trim (toLowerCase shortReview)))
   \<and> sig_score (detectAIPatterns (trim (toLowerCase shortReview))) \<le> 1
   \<and> repetitionPattern (analyze shortReview)
       = Some (analyzeRepetition (trim (toLowerCase shortReview)))
   \<and> 0 \<le> sig_score (analyzeRepetition (trim (toLowerCase shortReview)))
   \<and> sig_score (analyzeRepetition (trim (toLowerCase shortReview))) \<le> 1
   \<and> sentimentConsistency (analyze shortReview)
       = Some (analyzeSentiment (trim (toLowerCase shortReview)))
   \<and> 0 \<le> sig_score (analyzeSentiment (trim (toLowerCase shortReview)))
   \<and> sig_score (analyzeSentiment (trim (toLowerCase shortReview))) \<le> 1
   \<and> vocabularyDistribution (analyze shortReview)
       = Some (analyzeVocabulary (trim (toLowerCase shortReview)))
   \<and> 0 \<le> sig_score (analyzeVocabulary (trim (toLowerCase shortReview)))
   \<and> sig_score (analyzeVocabulary (trim (toLowerCase shortReview))) \<le> 1
   \<and> templateMatching (analyze shortReview)
       = Some (detectTemplates (trim (toLowerCase shortReview)))
   \<and> 0 \<le> sig_score (detectTemplates (trim (toLowerCase shortReview)))
   \<and> sig_score (detectTemplates (trim (toLowerCase shortReview))) \<le> 1"
proof -
  have len: "\<not> (shortReview = [] \<or> length shortReview < 20)"
    by (simp add: shortReview_def)
  have a: "aiDetection (analyze shortReview)
      = Some (detectAIPatterns (trim (toLowerCase shortReview)))"
    and r: "repetitionPattern (analyze shortReview)
      = Some (analyzeRepetition (trim (toLowerCase shortReview)))"
    and s: "sentimentConsistency (analyze shortReview)
      = Some (analyzeSentiment (trim (toLowerCase shortReview)))"
    and v: "vocabularyDistribution (analyze shortReview)
      = Some (analyzeVocabulary (trim (toLowerCase shortReview)))"
    and t: "templateMatching (analyze shortReview)
      = Some (detectTemplates (trim (toLowerCase shortReview)))"
    using len by (simp_all add: analyze_def Let_def)
  show ?thesis
    using a r s v t C5_lexical_scores_in_unit_interval [of shortReview]
    by simp
qed

subsection \<open>Template matching\<close>

lemma matchCount_lower_bound:
  assumes "distinct ts" and "set ts \<subseteq> set fakeReviewTemplates"
    and "\<forall>t\<in>set ts. includesStr text t"
  shows "length ts \<le> matchCount text"
proof -
  have "set ts \<subseteq> set (filter (includesStr text) fakeReviewTemplates)"
    using assms(2,3) by auto
  then have "card (set ts) \<le> card (set (filter (includesStr text) fakeReviewTemplates))"
    by (intro card_mono) simp_all
  also have "\<dots> \<le> length (filter (includesStr text) fakeReviewTemplates)"
    by (rule card_length)
  finally show ?thesis
    using assms(1) by (simp add: matchCount_def distinct_card)
qed

text \<open>
  Claim C6 fails when a template is repeated: a text made of four occurrences of
  ``worth every penny'' has four occurrences of template substrings, so the formula with
  occurrences counted gives \<open>max 0 (1 - 0.3 * 4) = 0\<close>, but \<^verbatim>\<open>_detectTemplates\<close> tests
  each template with \<^verbatim>\<open>includes\<close> and scores 0.7.
\<close>

theorem C6_repeated_template_counterexample:
  "templateOccurrences repeatedTemplate = 4
   \<and> max 0 (1 - 0.3 * real (templateOccurrences repeatedTemplate)) = 0
   \<and> matchCount repeatedTemplate = 1
   \<and> sig_score (detectTemplates repeatedTemplate) = 0.7"
proof -
  have o: "templateOccurrences repeatedTemplate = 4"
    by (simp add: templateOccurrences_def repeatedTemplate_def fakeReviewTemplates_def)
  have m: "matchCount repeatedTemplate = 1"
    by (simp add: matchCount_def repeatedTemplate_def fakeReviewTemplates_def)
  show ?thesis by (simp add: o m detectTemplates_def)
qed

text \<open>
  Claim C6, amended. For every text the template-matching score is
  \<open>max 0 (1 - 0.3 * matchCount)\<close>, where \<open>matchCount\<close> is the number of templates of the
  fixed list that occur in the text, each counted once; \<^verbatim>\<open>analyze\<close> applies it to the
  normalized text when the text has at least 20 characters. Every text containing at
  least four different templates of the list scores exactly 0, and no score is negative.
\<close>

theorem C6_template_score:
  "sig_score (detectTemplates text) = max 0 (1 - 0.3 * real (matchCount text))
   \<and> matchCount text = length (filter (includesStr text) fakeReviewTemplates)
   \<and> (length text \<ge> 20 \<longrightarrow>
        map_option sig_score (templateMatching (analyze text))
          = Some (max 0 (1 - 0.3 * real (matchCount (trim (toLowerCase text))))))
   \<and> (\<forall>ts. distinct ts \<and> set ts \<subseteq> set fakeReviewTemplates \<and> length ts \<ge> 4
           \<and> (\<forall>t\<in>set ts. includesStr text t)
        \<longrightarrow> sig_score (detectTemplates text) = 0)
   \<and> 0 \<le> sig_score (detectTemplates text)"
proof (intro conjI impI allI)
  show "sig_score (detectTemplates text) = max 0 (1 - 0.3 * real (matchCount text))"
    by (simp add: detectTemplates_def)
  show "matchCount text = length (filter (includesStr text) fakeReviewTemplates)"
    by (simp add: matchCount_def)
  show "0 \<le> sig_score (detectTemplates text)"
    by (simp add: detectTemplates_def)
next
  assume "20 \<le> length text"
  then have "\<not> (text = [] \<or> length text < 20)" by auto
  then show "map_option sig_score (templateMatching (analyze text))
          = Some (max 0 (1 - 0.3 * real (matchCount (trim (toLowerCase text)))))"
    by (simp add: analyze_def Let_def detectTemplates_def)
next
  fix ts
  assume a: "distinct ts \<and> set ts \<subseteq> set fakeReviewTemplates \<and> length ts \<ge> 4
           \<and> (\<forall>t\<in>set ts. includesStr text t)"
  then have "length ts \<le> matchCount text"
    by (intro matchCount_lower_bound) simp_all
  then have "4 \<le> matchCount text" using a by simp
  then have "4 \<le> real (matchCount text)" by simp
  then show "sig_score (detectTemplates text) = 0"
    by (simp add: detectTemplates_def)
qed

text \<open>A text of 84 characters with four different templates.\<close>

theorem C6_template_score_witness:
  "length fourTemplates \<ge> 20
   \<and> distinct [''exactly as described'', ''worth every penny'', ''must have product'',
                ''exceeded my expectations'']
   \<and> includesStr fourTemplates ''exactly as described''
   \<and> includesStr fourTemplates ''worth every penny''
   \<and> includesStr fourTemplates ''must have product''
   \<and> includesStr fourTemplates ''exceeded my expectations''
   \<and> sig_score (detectTemplates fourTemplates) = 0
   \<and> map_option sig_score (templateMatching (analyze fourTemplates))
       = Some (max 0 (1 - 0.3 * real (matchCount (trim (toLowerCase fourTemplates)))))"
proof -
  let ?ts = "[''exactly as described'', ''worth every penny'', ''must have product'',
              ''exceeded my expectations'']"
  have len: "length fourTemplates \<ge> 20" by (simp add: fourTemplates_def)
  have d: "distinct ?ts" by simp
  have sub: "set ?ts \<subseteq> set fakeReviewTemplates" by (simp add: fakeReviewTemplates_def)
  have i1: "includesStr fourTemplates ''exactly as described''"
    and i2: "includesStr fourTemplates ''worth every penny''"
    and i3: "includesStr fourTemplates ''must have product''"
    and i4: "includesStr fourTemplates ''exceeded my expectations''"
    by (simp_all add: fourTemplates_def)
  have all: "\<forall>t\<in>set ?ts. includesStr fourTemplates t" using i1 i2 i3 i4 by simp
  have n: "length ?ts \<ge> 4" by simp
  note inst = C6_template_score [of fourTemplates]
  have z: "sig_score (detectTemplates fourTemplates) = 0"
    using inst d sub n all by blast
  have an: "map_option sig_score (templateMatching (analyze fourTemplates))
       = Some (max 0 (1 - 0.3 * real (matchCount (trim (toLowerCase fourTemplates)))))"
    using inst len by blast
  show ?thesis using len d i1 i2 i3 i4 z an by blast
qed

section \<open>Properties of the batch text analyzer\<close>

subsection \<open>Counting in an object\<close>










subsection \<open>Shingles shared by three texts\<close>









end

